theory Spec2Isabelle
  imports Complex_Main "HOL-Library.Multiset" "HOL-Library.List_Lexorder" "HOL-Library.Char_ord"
begin

section \<open>Errors\<close>

text \<open>
  The exceptions the modelled code can raise.  Python's float arithmetic is idealised as
  exact rational arithmetic throughout (type \<open>rat\<close>): the model keeps every operation of
  the source in its place and leaves out rounding only.
\<close>

datatype error =
    ZeroDivisionError
  | ValueError
  | IndexError
  | RuntimeError
  | FileNotFoundError

section \<open>Epoch metrics (04_train_mlp.py, 05_train_temporal.py)\<close>

text \<open>
  The model and the criterion are opaque.  What one batch contributes to the loop is the
  triple the loop reads: \<open>loss.item()\<close>, the batch size \<open>X_batch.size(0)\<close>
  (equal to \<open>y_batch.size(0)\<close> for a batch of a DataLoader) and
  \<open>predicted.eq(y_batch).sum().item()\<close>.
\<close>

record batch_outcome =
  loss_item :: rat
  bsize :: nat
  n_correct :: nat

text \<open>
  The inner loop over the loader:
  \<^verbatim>\<open>
  train_loss += loss.item() * X_batch.size(0)
  train_total += y_batch.size(0)
  train_correct += predicted.eq(y_batch).sum().item()
  \<close>
  The accumulator is \<open>(loss, correct, total)\<close>.
\<close>

fun accumulate :: "batch_outcome list \<Rightarrow> rat \<times> nat \<times> nat \<Rightarrow> rat \<times> nat \<times> nat" where
  "accumulate [] acc = acc"
| "accumulate (b # bs) (l, correct, tot) =
     accumulate bs (l + loss_item b * of_nat (bsize b), correct + n_correct b, tot + bsize b)"

text \<open>
  After the inner loop: \<open>train_loss /= train_total\<close> and
  \<open>train_acc = 100. * train_correct / train_total\<close>.  With no sample the first division
  raises ZeroDivisionError.
\<close>

definition epoch_metrics :: "batch_outcome list \<Rightarrow> error + (rat \<times> rat)" where
  "epoch_metrics bs =
     (case accumulate bs (0, 0, 0) of
        (l, correct, tot) \<Rightarrow>
          if tot = 0 then Inl ZeroDivisionError
          else Inr (l / of_nat tot, 100 * of_nat correct / of_nat tot))"

text \<open>
  The two aggregation rules the specification contrasts, written from its words: the
  size-weighted aggregate over the batches of an epoch, and the plain mean of the
  per-batch values.
\<close>

definition size_weighted_loss :: "batch_outcome list \<Rightarrow> rat" where
  "size_weighted_loss bs =
     (\<Sum>b\<leftarrow>bs. loss_item b * of_nat (bsize b)) / of_nat (\<Sum>b\<leftarrow>bs. bsize b)"

definition size_weighted_acc :: "batch_outcome list \<Rightarrow> rat" where
  "size_weighted_acc bs = 100 * of_nat (\<Sum>b\<leftarrow>bs. n_correct b) / of_nat (\<Sum>b\<leftarrow>bs. bsize b)"

definition mean_of_batch_losses :: "batch_outcome list \<Rightarrow> rat" where
  "mean_of_batch_losses bs = (\<Sum>b\<leftarrow>bs. loss_item b) / of_nat (length bs)"

definition mean_of_batch_accs :: "batch_outcome list \<Rightarrow> rat" where
  "mean_of_batch_accs bs =
     (\<Sum>b\<leftarrow>bs. 100 * of_nat (n_correct b) / of_nat (bsize b)) / of_nat (length bs)"

text \<open>
  Batches of the sizes \<open>ns\<close> in which batch \<open>j\<close> alone has loss 1 and all its samples
  right, and every other batch has loss 0 and no sample right.
\<close>

definition spike :: "nat list \<Rightarrow> nat \<Rightarrow> batch_outcome list" where
  "spike ns j =
     map (\<lambda>i. \<lparr>loss_item = (if i = j then 1 else 0), bsize = ns ! i,
                n_correct = (if i = j then ns ! i else 0)\<rparr>) [0..<length ns]"

text \<open>
  Concrete epochs: batches of sizes 1 and 3 with different losses, two batches of size 2,
  and batches of sizes 1 and 3 that all have loss 1 and every sample right.
\<close>

definition uneven_batches :: "batch_outcome list" where
  "uneven_batches =
     [\<lparr>loss_item = 1, bsize = 1, n_correct = 1\<rparr>, \<lparr>loss_item = 3, bsize = 3, n_correct = 0\<rparr>]"

definition even_batches :: "batch_outcome list" where
  "even_batches =
     [\<lparr>loss_item = 1, bsize = 2, n_correct = 1\<rparr>, \<lparr>loss_item = 3, bsize = 2, n_correct = 2\<rparr>]"

definition uniform_batches :: "batch_outcome list" where
  "uniform_batches =
     [\<lparr>loss_item = 1, bsize = 1, n_correct = 1\<rparr>, \<lparr>loss_item = 1, bsize = 3, n_correct = 3\<rparr>]"

section \<open>The training loop with early stopping and best checkpoint\<close>

record epoch_run =
  train_batches :: "batch_outcome list"
  val_batches :: "batch_outcome list"

record history_rec =
  train_loss :: "rat list"
  train_acc :: "rat list"
  val_loss :: "rat list"
  val_acc :: "rat list"

text \<open>
  The file written by \<open>torch.save\<close>: the epoch whose model state it holds and that epoch's
  validation accuracy.
\<close>

record checkpoint =
  ck_epoch :: nat
  ck_val_acc :: rat

text \<open>
  The loop's variables, and the checkpoint file of the output directory (\<open>None\<close>: no file).
\<close>

record train_state =
  history :: history_rec
  best_val_acc :: rat
  epochs_without_improvement :: nat
  saved :: "checkpoint option"

definition append_history :: "rat \<Rightarrow> rat \<Rightarrow> rat \<Rightarrow> rat \<Rightarrow> history_rec \<Rightarrow> history_rec" where
  "append_history trl tra vl va h =
     \<lparr>train_loss = train_loss h @ [trl], train_acc = train_acc h @ [tra],
      val_loss = val_loss h @ [vl], val_acc = val_acc h @ [va]\<rparr>"

text \<open>
  The end of the loop body.  The result is the new state and whether the loop breaks:
  \<^verbatim>\<open>
  if val_acc > best_val_acc:
      best_val_acc = val_acc
      epochs_without_improvement = 0
      torch.save({'epoch': epoch, ..., 'val_acc': val_acc, ...}, ...)
  else:
      epochs_without_improvement += 1
      if epochs_without_improvement >= patience:
          break
  \<close>
\<close>

definition early_stopping :: "int \<Rightarrow> nat \<Rightarrow> rat \<Rightarrow> train_state \<Rightarrow> train_state \<times> bool" where
  "early_stopping patience epoch va st =
     (if va > best_val_acc st
      then (st\<lparr>best_val_acc := va, epochs_without_improvement := 0,
                saved := Some \<lparr>ck_epoch = epoch, ck_val_acc = va\<rparr>\<rparr>, False)
      else (st\<lparr>epochs_without_improvement := epochs_without_improvement st + 1\<rparr>,
            patience \<le> int (epochs_without_improvement st + 1)))"

text \<open>
  One pass of the body of \<open>for epoch in range(epochs)\<close>: the training pass, the validation
  pass, the four appends to the history, then the early-stopping block.  The scheduler
  changes the learning rate only, which the opaque outcomes absorb.
\<close>

definition run_epoch :: "int \<Rightarrow> nat \<Rightarrow> epoch_run \<Rightarrow> train_state \<Rightarrow> error + (train_state \<times> bool)" where
  "run_epoch patience epoch r st =
     (case epoch_metrics (train_batches r) of
        Inl e \<Rightarrow> Inl e
      | Inr (trl, tra) \<Rightarrow>
          (case epoch_metrics (val_batches r) of
             Inl e \<Rightarrow> Inl e
           | Inr (vl, va) \<Rightarrow>
               Inr (early_stopping patience epoch va
                      (st\<lparr>history := append_history trl tra vl va (history st)\<rparr>))))"

fun train_loop :: "int \<Rightarrow> (nat \<Rightarrow> epoch_run) \<Rightarrow> nat list \<Rightarrow> train_state \<Rightarrow> error + train_state" where
  "train_loop patience runs [] st = Inr st"
| "train_loop patience runs (epoch # rest) st =
     (case run_epoch patience epoch (runs epoch) st of
        Inl e \<Rightarrow> Inl e
      | Inr (st', brk) \<Rightarrow> if brk then Inr st' else train_loop patience runs rest st')"

text \<open>
  \<open>Trainer.train\<close> and \<open>MultiModelTrainer.train_model\<close>: \<open>runs epoch\<close> is what the opaque
  model yields on the batches of that epoch, \<open>ck0\<close> is the checkpoint file found in the
  output directory before the run.  The returned state holds the history, the returned
  \<open>best_val_acc\<close> and the checkpoint file after the run.
\<close>

definition init_state :: "checkpoint option \<Rightarrow> train_state" where
  "init_state ck0 =
     \<lparr>history = \<lparr>train_loss = [], train_acc = [], val_loss = [], val_acc = []\<rparr>,
      best_val_acc = 0, epochs_without_improvement = 0, saved = ck0\<rparr>"

definition train :: "int \<Rightarrow> int \<Rightarrow> (nat \<Rightarrow> epoch_run) \<Rightarrow> checkpoint option \<Rightarrow> error + train_state" where
  "train epochs patience runs ck0 = train_loop patience runs [0..<nat epochs] (init_state ck0)"

text \<open>
  The invariant of the loop after \<open>n\<close> epochs: the best value is the maximum of 0 and the
  recorded validation accuracies; while it is 0 nothing was saved and every epoch counted
  as one without improvement; otherwise the file holds the first epoch that reached the
  best value, and the counter is the number of epochs since.
\<close>

definition loop_inv :: "checkpoint option \<Rightarrow> nat \<Rightarrow> train_state \<Rightarrow> bool" where
  "loop_inv ck0 n st \<longleftrightarrow>
     length (val_acc (history st)) = n \<and>
     best_val_acc st = Max (set (0 # val_acc (history st))) \<and>
     (if best_val_acc st = 0
      then saved st = ck0 \<and> epochs_without_improvement st = n
      else (\<exists>E<n. val_acc (history st) ! E = best_val_acc st \<and>
              (\<forall>j<E. val_acc (history st) ! j < best_val_acc st) \<and>
              saved st = Some \<lparr>ck_epoch = E, ck_val_acc = best_val_acc st\<rparr> \<and>
              E + epochs_without_improvement st + 1 = n))"

definition may_continue :: "int \<Rightarrow> train_state \<Rightarrow> bool" where
  "may_continue patience st \<longleftrightarrow>
     epochs_without_improvement st = 0 \<or> int (epochs_without_improvement st) < patience"

definition just_broke :: "int \<Rightarrow> train_state \<Rightarrow> bool" where
  "just_broke patience st \<longleftrightarrow>
     0 < epochs_without_improvement st \<and> patience \<le> int (epochs_without_improvement st) \<and>
     (epochs_without_improvement st = 1 \<or> int (epochs_without_improvement st) - 1 < patience)"

text \<open>
  Concrete runs: every epoch has one training batch and one validation batch of four
  samples; \<open>runs_from cs\<close> gets \<open>cs ! e\<close> validation samples right in epoch \<open>e\<close> (and none
  once the list is used up), so the validation accuracy of epoch \<open>e\<close> is \<open>25 * cs ! e\<close>.
\<close>

definition example_run :: "nat \<Rightarrow> epoch_run" where
  "example_run c =
     \<lparr>train_batches = [\<lparr>loss_item = 1, bsize = 4, n_correct = 2\<rparr>],
      val_batches = [\<lparr>loss_item = 1 / 2, bsize = 4, n_correct = c\<rparr>]\<rparr>"

definition runs_from :: "nat list \<Rightarrow> nat \<Rightarrow> epoch_run" where
  "runs_from cs e = example_run (if e < length cs then cs ! e else 0)"

section \<open>Sequence batches (05_train_temporal.py)\<close>

text \<open>
  A sequence tensor of shape \<open>(length, trailing)\<close>: its rows, and the trailing dimension,
  which an empty sequence keeps.  An item of the dataset is
  \<open>(landmarks, label, seq_length)\<close>.
\<close>

record 'a tensor2 =
  trailing :: nat
  trows :: "'a list list"

type_synonym 'a item = "'a tensor2 \<times> nat \<times> nat"

definition max_len :: "'a tensor2 list \<Rightarrow> nat" where
  "max_len seqs = fold max (map (\<lambda>s. length (trows s)) seqs) 0"

text \<open>
  The library call \<open>pad_sequence(sequences, batch_first=True, padding_value=0.0)\<close>.  The
  output is filled with the padding value; it has the length of the longest sequence and
  the trailing dimension \<open>d\<close> of the first one.  Every sequence is then copied to the
  front of its slot with \<open>copy_\<close>, which broadcasts: a sequence of trailing dimension
  \<open>d\<close> is copied as it is, a sequence of trailing dimension 1 has the one value of each
  row repeated \<open>d\<close> times, and any other trailing dimension raises.  An empty list is
  rejected.
\<close>

definition broadcast_rows :: "nat \<Rightarrow> 'a tensor2 \<Rightarrow> 'a list list" where
  "broadcast_rows d s =
     (if trailing s = d then trows s
      else map (\<lambda>r. case r of [x] \<Rightarrow> replicate d x | _ \<Rightarrow> r) (trows s))"

definition pad_to :: "nat \<Rightarrow> nat \<Rightarrow> 'a::zero tensor2 \<Rightarrow> 'a list list" where
  "pad_to m d s = broadcast_rows d s @ replicate (m - length (trows s)) (replicate d 0)"

definition pad_sequence :: "'a::zero tensor2 list \<Rightarrow> error + 'a list list list" where
  "pad_sequence seqs =
     (case seqs of
        [] \<Rightarrow> Inl RuntimeError
      | s0 # _ \<Rightarrow>
          if \<exists>s\<in>set seqs. trailing s \<noteq> trailing s0 \<and> trailing s \<noteq> 1 then Inl RuntimeError
          else Inr (map (pad_to (max_len seqs) (trailing s0)) seqs))"

text \<open>
  \<^verbatim>\<open>
  sequences, labels, lengths = zip(*batch)
  padded_sequences = pad_sequence(sequences, batch_first=True, padding_value=0.0)
  labels = torch.stack(labels)
  lengths = torch.LongTensor(lengths)
  return padded_sequences, labels, lengths
  \<close>
  Unpacking \<open>zip(*batch)\<close> of an empty batch into three names raises ValueError.
\<close>

definition collate_sequences ::
  "'a::zero item list \<Rightarrow> error + ('a list list list \<times> nat list \<times> nat list)" where
  "collate_sequences batch =
     (if batch = [] then Inl ValueError
      else case pad_sequence (map fst batch) of
             Inl e \<Rightarrow> Inl e
           | Inr padded_sequences \<Rightarrow>
               Inr (padded_sequences, map (fst \<circ> snd) batch, map (snd \<circ> snd) batch))"

text \<open>
  \<open>outputs.max(1)\<close>: for each row of logits the index of its first maximal value.
\<close>

fun argmax_from :: "rat list \<Rightarrow> nat \<Rightarrow> rat \<Rightarrow> nat \<Rightarrow> nat" where
  "argmax_from [] i best besti = besti"
| "argmax_from (x # xs) i best besti =
     (if x > best then argmax_from xs (Suc i) x i else argmax_from xs (Suc i) best besti)"

definition argmax :: "rat list \<Rightarrow> nat" where
  "argmax row = (case row of [] \<Rightarrow> 0 | x # xs \<Rightarrow> argmax_from xs 1 x 0)"

text \<open>
  What the training and the validation passes of \<open>train_model\<close> compute for one batch;
  \<open>model\<close> is the forward function at the current parameters, \<open>criterion\<close> the loss:
  \<^verbatim>\<open>
  for sequences, labels, lengths in train_loader:
      outputs = model(sequences)
      loss = criterion(outputs, labels)
      ...
      train_loss += loss.item() * sequences.size(0)
      _, predicted = outputs.max(1)
      train_total += labels.size(0)
      train_correct += predicted.eq(labels).sum().item()
  \<close>
  The criterion raises when the outputs and the labels differ in number, and the maximum
  over an empty row of logits raises.
\<close>

definition batch_step ::
  "('a list list list \<Rightarrow> rat list list) \<Rightarrow> (rat list list \<Rightarrow> nat list \<Rightarrow> rat) \<Rightarrow>
   'a list list list \<times> nat list \<times> nat list \<Rightarrow> error + batch_outcome" where
  "batch_step model criterion batch =
     (case batch of (sequences, labels, lengths) \<Rightarrow>
        let outputs = model sequences in
        if length outputs \<noteq> length labels then Inl ValueError
        else if \<exists>row\<in>set outputs. row = [] then Inl IndexError
        else let loss = criterion outputs labels;
                 predicted = map argmax outputs
             in Inr \<lparr>loss_item = loss, bsize = length sequences,
                     n_correct = length (filter (\<lambda>(p, y). p = y) (zip predicted labels))\<rparr>)"

text \<open>
  A concrete model and criterion for running a step: the model reads the class scores off
  the last timestep of every padded sequence, the loss is the share of wrong predictions.
  Two items with two features: \<open>item_A\<close> of length 1 and class 1, \<open>item_B\<close> of length 2 and
  class 0; \<open>item_A0\<close> is \<open>item_A\<close> followed by a true all-zero timestep.
\<close>

definition last_step_model :: "rat list list list \<Rightarrow> rat list list" where
  "last_step_model sequences = map (\<lambda>s. if s = [] then [] else last s) sequences"

definition zero_one_loss :: "rat list list \<Rightarrow> nat list \<Rightarrow> rat" where
  "zero_one_loss outputs labels =
     of_nat (length (filter (\<lambda>(p, y). p \<noteq> y) (zip (map argmax outputs) labels)))
       / of_nat (length labels)"

definition item_A :: "rat item" where
  "item_A = (\<lparr>trailing = 2, trows = [ [0, 1] ]\<rparr>, 1, 1)"

definition item_B :: "rat item" where
  "item_B = (\<lparr>trailing = 2, trows = [ [1, 0], [1, 0] ]\<rparr>, 0, 2)"

definition item_A0 :: "rat item" where
  "item_A0 = (\<lparr>trailing = 2, trows = [ [0, 1], [0, 0] ]\<rparr>, 1, 2)"

text \<open>
  Two items of different feature widths: one row of three features, and two rows of one
  feature.
\<close>

definition item_wide :: "rat item" where
  "item_wide = (\<lparr>trailing = 3, trows = [ [1, 1, 1] ]\<rparr>, 0, 1)"

definition item_narrow :: "rat item" where
  "item_narrow = (\<lparr>trailing = 1, trows = [ [2], [3] ]\<rparr>, 1, 2)"

section \<open>Loading and splitting (03_create_splits.py)\<close>

text \<open>
  A numpy array: its shape and its elements in row-major order.  A pickle file: its name
  and what \<open>pickle.load\<close> gives (\<open>None\<close>: it raises); the record's \<open>'landmarks'\<close> entry
  (\<open>None\<close>: no usable array) and its optional \<open>'source'\<close>.
\<close>

record ndarray =
  shape :: "nat list"
  flat :: "rat list"

record pkl_data =
  pk_landmarks :: "ndarray option"
  pk_source :: "string option"

record pkl_file =
  pk_name :: string
  pk_content :: "pkl_data option"

record sample =
  features :: "rat list"
  landmarks :: ndarray
  label :: nat
  gloss :: string
  file_nm :: string
  source :: string

definition TARGET_CLASSES :: "string list" where
  "TARGET_CLASSES =
     map (\<lambda>c. [c]) ''abcdefghijklmnopqrstuvwxyz'' @
     [''zero'', ''one'', ''two'', ''three'', ''four'', ''five'', ''six'', ''seven'', ''eight'', ''nine'']"

fun index_of :: "'a \<Rightarrow> 'a list \<Rightarrow> nat option" where
  "index_of x [] = None"
| "index_of x (y # ys) = (if x = y then Some 0 else map_option Suc (index_of x ys))"

text \<open>
  \<open>label_to_idx = {label: idx for idx, label in enumerate(sorted(TARGET_CLASSES))}\<close>
\<close>

definition label_to_idx :: "string \<Rightarrow> nat option" where
  "label_to_idx g = index_of g (sort TARGET_CLASSES)"

text \<open>
  \<open>landmarks[0]\<close>: the first sub-array along the first axis; IndexError when that axis is
  empty.
\<close>

definition first_frame :: "ndarray \<Rightarrow> error + ndarray" where
  "first_frame a =
     (case shape a of
        [] \<Rightarrow> Inl IndexError
      | f # rest \<Rightarrow>
          if f = 0 then Inl IndexError
          else Inr \<lparr>shape = rest, flat = take (prod_list rest) (flat a)\<rparr>)"

text \<open>
  The body of the loop over the pickle files of one class directory.  Every exception
  inside the \<open>try\<close> is caught and the file is skipped (\<open>None\<close>):
  \<^verbatim>\<open>
  landmarks = data['landmarks']
  if len(landmarks.shape) == 3:
      landmarks = landmarks[0]
  features = landmarks.flatten()
  all_samples.append({'features': features, 'landmarks': landmarks, ...})
  \<close>
\<close>

definition load_file :: "nat \<Rightarrow> string \<Rightarrow> pkl_file \<Rightarrow> sample option" where
  "load_file idx g f =
     (case pk_content f of
        None \<Rightarrow> None
      | Some d \<Rightarrow>
          (case pk_landmarks d of
             None \<Rightarrow> None
           | Some lm \<Rightarrow>
               (case (if length (shape lm) = 3 then first_frame lm else Inr lm) of
                  Inl e \<Rightarrow> None
                | Inr lm' \<Rightarrow>
                    Some \<lparr>features = flat lm', landmarks = lm', label = idx, gloss = g,
                          file_nm = pk_name f,
                          source = (case pk_source d of None \<Rightarrow> ''unknown'' | Some s \<Rightarrow> s)\<rparr>)))"

text \<open>
  The class directories in sorted order, each with its lower-cased name and its pickle
  files; a directory whose name is no target class is skipped.
\<close>

definition load_all :: "(string \<times> pkl_file list) list \<Rightarrow> sample list" where
  "load_all dirs =
     concat (map (\<lambda>(g, files).
                    case label_to_idx g of
                      None \<Rightarrow> []
                    | Some idx \<Rightarrow> List.map_filter (load_file idx g) files) dirs)"

text \<open>
  The library function \<open>train_test_split(arrays, test_size, stratify, random_state)\<close> is a
  parameter of the model: it returns the pair \<open>(train, test)\<close> or raises.
\<close>

type_synonym splitter = "nat list \<Rightarrow> rat \<Rightarrow> nat list \<Rightarrow> int \<Rightarrow> error + (nat list \<times> nat list)"

record split_result =
  train_ids :: "nat list"
  val_ids :: "nat list"
  test_ids :: "nat list"
  train_samples :: "sample list"
  val_samples :: "sample list"
  test_samples :: "sample list"

text \<open>
  Saving a split stacks its samples:
  \<^verbatim>\<open>
  X = np.array([s['features'] for s in split_data])
  landmarks = np.array([s['landmarks'] for s in split_data])
  \<close>
  which raises ValueError unless the feature vectors have one length and the landmark
  arrays one shape.
\<close>

definition stackable :: "sample list \<Rightarrow> bool" where
  "stackable split_data \<longleftrightarrow>
     (\<forall>s\<in>set split_data. \<forall>t\<in>set split_data.
        length (features s) = length (features t) \<and> shape (landmarks s) = shape (landmarks t))"

text \<open>
  \<open>DatasetCleaner.create_splits\<close> after loading.  \<open>min(label_counts.values())\<close> raises
  ValueError on an empty store; the minimum is printed and not used otherwise.  The
  function indexes \<open>all_labels\<close> and \<open>all_samples\<close> with what the library returns, and
  divides by \<open>train_ratio + val_ratio\<close>.  It stacks the samples of every split to save
  them, and its closing report takes \<open>min(class_counts.values())\<close> of every split,
  which raises ValueError on an empty split.
\<close>

definition create_splits ::
  "splitter \<Rightarrow> rat \<Rightarrow> rat \<Rightarrow> rat \<Rightarrow> int \<Rightarrow> (string \<times> pkl_file list) list \<Rightarrow> error + split_result" where
  "create_splits train_test_split train_ratio val_ratio test_ratio random_state dirs =
     (let all_samples = load_all dirs;
          all_labels = map label all_samples
      in if all_labels = [] then Inl ValueError
         else
           (case train_test_split [0..<length all_samples] test_ratio all_labels random_state of
              Inl e \<Rightarrow> Inl e
            | Inr (train_val_idx, test_idx) \<Rightarrow>
                if \<exists>i\<in>set train_val_idx. length all_labels \<le> i then Inl IndexError
                else if train_ratio + val_ratio = 0 then Inl ZeroDivisionError
                else
                  (case train_test_split train_val_idx (val_ratio / (train_ratio + val_ratio))
                          (map (\<lambda>i. all_labels ! i) train_val_idx) random_state of
                     Inl e \<Rightarrow> Inl e
                   | Inr (train_idx, val_idx) \<Rightarrow>
                       if \<exists>i\<in>set (train_idx @ val_idx @ test_idx). length all_samples \<le> i
                       then Inl IndexError
                       else if \<not> stackable (map (\<lambda>i. all_samples ! i) train_idx) \<or>
                               \<not> stackable (map (\<lambda>i. all_samples ! i) val_idx) \<or>
                               \<not> stackable (map (\<lambda>i. all_samples ! i) test_idx)
                       then Inl ValueError
                       else if train_idx = [] \<or> val_idx = [] \<or> test_idx = []
                       then Inl ValueError
                       else Inr \<lparr>train_ids = train_idx, val_ids = val_idx, test_ids = test_idx,
                                 train_samples = map (\<lambda>i. all_samples ! i) train_idx,
                                 val_samples = map (\<lambda>i. all_samples ! i) val_idx,
                                 test_samples = map (\<lambda>i. all_samples ! i) test_idx\<rparr>)))"

definition split_ids :: "split_result \<Rightarrow> nat list \<times> nat list \<times> nat list" where
  "split_ids r = (train_ids r, val_ids r, test_ids r)"

text \<open>
  The contract of the library function: what it returns is a rearrangement of its input,
  cut in two.
\<close>

definition splitter_partitions :: "splitter \<Rightarrow> bool" where
  "splitter_partitions tts \<longleftrightarrow>
     (\<forall>xs sz ys seed a b. tts xs sz ys seed = Inr (a, b) \<longrightarrow> mset a + mset b = mset xs)"

text \<open>
  A deterministic instance of the contract, for running \<open>create_splits\<close> on a concrete
  store: like the library it sends \<open>ceil(test_size * n)\<close> elements to the test side and
  raises when a side would be empty; it takes them from the front and ignores the labels
  and the seed.
\<close>

definition cut_split :: splitter where
  "cut_split xs test_size ys seed =
     (let n_test = nat \<lceil>test_size * of_nat (length xs)\<rceil>
      in if n_test = 0 \<or> length xs \<le> n_test then Inl ValueError
         else Inr (drop n_test xs, take n_test xs))"

text \<open>
  Concrete files: a frame of 63 equal values, a file with one frame, a file with two
  frames, and a store with two samples of class a and eight of class b.
\<close>

definition frame :: "rat \<Rightarrow> rat list" where
  "frame v = replicate 63 v"

definition one_frame_file :: "string \<Rightarrow> rat \<Rightarrow> pkl_file" where
  "one_frame_file nm v =
     \<lparr>pk_name = nm,
      pk_content = Some \<lparr>pk_landmarks = Some \<lparr>shape = [1, 21, 3], flat = frame v\<rparr>,
                         pk_source = Some ''kaggle_asl_alphabet''\<rparr>\<rparr>"

definition two_frame_array :: ndarray where
  "two_frame_array = \<lparr>shape = [2, 21, 3], flat = frame 1 @ frame 2\<rparr>"

definition two_frame_file :: pkl_file where
  "two_frame_file =
     \<lparr>pk_name = ''clip.pkl'',
      pk_content = Some \<lparr>pk_landmarks = Some two_frame_array, pk_source = None\<rparr>\<rparr>"

definition small_store :: "(string \<times> pkl_file list) list" where
  "small_store =
     [(''a'', [one_frame_file ''kaggle_a_0000.pkl'' 1, one_frame_file ''kaggle_a_0001.pkl'' 2]),
      (''b'', map (\<lambda>k. one_frame_file ''kaggle_b.pkl'' (of_nat k)) [0..<8])]"

section \<open>The multi-model run (05_train_temporal.py)\<close>

text \<open>
  \<open>train_model\<close> returns the best validation accuracy or raises, \<open>evaluate_model\<close>
  returns the test accuracy or raises (it loads the checkpoint file first), and
  \<open>params\<close> counts the parameters.  All three are parameters of the model.
\<close>

record model_result =
  res_best_val_acc :: rat
  res_test_acc :: rat
  res_params :: nat

text \<open>
  What a call of \<open>run_all\<close> leaves: the models whose training was started, in order, and
  either the exception that ended the call or the returned dictionary \<open>results\<close>, in the
  order of its keys, which is also what \<open>all_models_results.json\<close> and the summary show.
\<close>

record harness_run =
  started :: "string list"
  outcome :: "error + (string \<times> model_result) list"

definition train_then_evaluate ::
  "(string \<Rightarrow> error + rat) \<Rightarrow> (string \<Rightarrow> error + rat) \<Rightarrow> (string \<Rightarrow> nat) \<Rightarrow> string \<Rightarrow>
   error + model_result" where
  "train_then_evaluate train_model evaluate_model params name =
     (case train_model name of
        Inl e \<Rightarrow> Inl e
      | Inr best \<Rightarrow>
          (case evaluate_model name of
             Inl e \<Rightarrow> Inl e
           | Inr test \<Rightarrow>
               Inr \<lparr>res_best_val_acc = best, res_test_acc = test, res_params = params name\<rparr>))"

text \<open>
  \<open>run_all\<close> is three blocks in a row, with no \<open>try\<close> around any of them.
\<close>

definition run_all ::
  "(string \<Rightarrow> error + rat) \<Rightarrow> (string \<Rightarrow> error + rat) \<Rightarrow> (string \<Rightarrow> nat) \<Rightarrow> harness_run" where
  "run_all train_model evaluate_model params =
     (case train_then_evaluate train_model evaluate_model params ''transformer'' of
        Inl e \<Rightarrow> \<lparr>started = [''transformer''], outcome = Inl e\<rparr>
      | Inr r1 \<Rightarrow>
          (case train_then_evaluate train_model evaluate_model params ''gru'' of
             Inl e \<Rightarrow> \<lparr>started = [''transformer'', ''gru''], outcome = Inl e\<rparr>
           | Inr r2 \<Rightarrow>
               (case train_then_evaluate train_model evaluate_model params ''tcn'' of
                  Inl e \<Rightarrow> \<lparr>started = [''transformer'', ''gru'', ''tcn''], outcome = Inl e\<rparr>
                | Inr r3 \<Rightarrow>
                    \<lparr>started = [''transformer'', ''gru'', ''tcn''],
                     outcome = Inr [(''transformer'', r1), (''gru'', r2), (''tcn'', r3)]\<rparr>)))"

text \<open>
  The order the specification asks of the table: test accuracy descending, equal test
  accuracies by the lower parameter count.
\<close>

definition ranked :: "(string \<times> model_result) list \<Rightarrow> bool" where
  "ranked table \<longleftrightarrow>
     sorted_wrt (\<lambda>a b. res_test_acc (snd a) > res_test_acc (snd b) \<or>
                        (res_test_acc (snd a) = res_test_acc (snd b) \<and>
                         res_params (snd a) \<le> res_params (snd b))) table"

text \<open>
  Concrete collaborators: a training that raises for the second model, one that succeeds
  for every model, an evaluation whose test accuracy rises along the three models, one
  that finds no checkpoint for the third, and a parameter count.
\<close>

definition gru_fails :: "string \<Rightarrow> error + rat" where
  "gru_fails name = (if name = ''gru'' then Inl RuntimeError else Inr 80)"

definition all_train :: "string \<Rightarrow> error + rat" where
  "all_train name = Inr 80"

definition rising_test_acc :: "string \<Rightarrow> error + rat" where
  "rising_test_acc name =
     (if name = ''transformer'' then Inr 10 else if name = ''gru'' then Inr 50 else Inr 90)"

definition tcn_has_no_checkpoint :: "string \<Rightarrow> error + rat" where
  "tcn_has_no_checkpoint name = (if name = ''tcn'' then Inl FileNotFoundError else Inr 70)"

definition example_params :: "string \<Rightarrow> nat" where
  "example_params name = 1000"

section \<open>Properties of the epoch metrics\<close>

lemma accumulate_sums:
  "accumulate bs (l, c, t) =
     (l + (\<Sum>b\<leftarrow>bs. loss_item b * of_nat (bsize b)), c + (\<Sum>b\<leftarrow>bs. n_correct b),
      t + (\<Sum>b\<leftarrow>bs. bsize b))"
  by (induction bs arbitrary: l c t) (simp_all add: algebra_simps)

lemma epoch_metrics_eq:
  "epoch_metrics bs =
     (if (\<Sum>b\<leftarrow>bs. bsize b) = 0 then Inl ZeroDivisionError
      else Inr (size_weighted_loss bs, size_weighted_acc bs))"
  by (simp add: epoch_metrics_def accumulate_sums size_weighted_loss_def size_weighted_acc_def)

lemma run_epoch_history:
  assumes "run_epoch patience epoch r st = Inr (st', brk)"
  shows "history st' =
           append_history (size_weighted_loss (train_batches r)) (size_weighted_acc (train_batches r))
             (size_weighted_loss (val_batches r)) (size_weighted_acc (val_batches r)) (history st)"
  using assms
  by (auto simp: run_epoch_def epoch_metrics_eq early_stopping_def split: if_splits)

lemma equal_sizes_sums:
  assumes "\<forall>b\<in>set bs. bsize b = n"
  shows "(\<Sum>b\<leftarrow>bs. bsize b) = length bs * n"
    and "(\<Sum>b\<leftarrow>bs. loss_item b * of_nat (bsize b)) = of_nat n * (\<Sum>b\<leftarrow>bs. loss_item b)"
    and "(\<Sum>b\<leftarrow>bs. 100 * of_nat (n_correct b) / of_nat (bsize b)) =
           100 * (of_nat (\<Sum>b\<leftarrow>bs. n_correct b) :: rat) / of_nat n"
  using assms by (induction bs) (simp_all add: algebra_simps add_divide_distrib)

lemma equal_sizes_coincide:
  assumes "bs \<noteq> []" "0 < n" "\<forall>b\<in>set bs. bsize b = n"
  shows "size_weighted_loss bs = mean_of_batch_losses bs"
    and "size_weighted_acc bs = mean_of_batch_accs bs"
proof -
  have k: "0 < length bs" using assms(1) by simp
  show "size_weighted_loss bs = mean_of_batch_losses bs"
    unfolding size_weighted_loss_def mean_of_batch_losses_def equal_sizes_sums[OF assms(3)]
    using k assms(2) by (simp add: field_simps)
  show "size_weighted_acc bs = mean_of_batch_accs bs"
    unfolding size_weighted_acc_def mean_of_batch_accs_def equal_sizes_sums[OF assms(3)]
    using k assms(2) by (simp add: field_simps)
qed

lemma sum_list_delta:
  "(\<Sum>i\<leftarrow>[0..<k]. if i = j then f i else 0) = (if j < k then f j else (0::'a::comm_monoid_add))"
  by (induction k) auto

lemma spike_sizes: "map bsize (spike ns j) = ns"
  by (simp add: spike_def comp_def map_nth)

lemma spike_correct: "\<forall>b\<in>set (spike ns j). n_correct b \<le> bsize b"
  by (auto simp: spike_def)

lemma spike_sums:
  assumes "j < length ns" "0 < ns ! j"
  shows "(\<Sum>b\<leftarrow>spike ns j. loss_item b * of_nat (bsize b)) = of_nat (ns ! j)"
    and "(\<Sum>b\<leftarrow>spike ns j. loss_item b) = 1"
    and "(\<Sum>b\<leftarrow>spike ns j. n_correct b) = ns ! j"
    and "(\<Sum>b\<leftarrow>spike ns j. bsize b) = sum_list ns"
    and "(\<Sum>b\<leftarrow>spike ns j. 100 * of_nat (n_correct b) / of_nat (bsize b)) = (100::rat)"
    and "length (spike ns j) = length ns"
proof -
  have a: "(if i = j then (1::rat) else 0) * of_nat (ns ! i) =
           (if i = j then of_nat (ns ! i) else 0)" for i
    by simp
  show "(\<Sum>b\<leftarrow>spike ns j. loss_item b * of_nat (bsize b)) = of_nat (ns ! j)"
    using assms(1) by (simp add: spike_def comp_def a sum_list_delta)
  show "(\<Sum>b\<leftarrow>spike ns j. loss_item b) = 1"
    using assms(1) by (simp add: spike_def comp_def sum_list_delta)
  show "(\<Sum>b\<leftarrow>spike ns j. n_correct b) = ns ! j"
    using assms(1) by (simp add: spike_def comp_def sum_list_delta)
  have "(\<Sum>b\<leftarrow>spike ns j. bsize b) = sum_list (map bsize (spike ns j))" by simp
  then show "(\<Sum>b\<leftarrow>spike ns j. bsize b) = sum_list ns" by (simp only: spike_sizes)
  have b: "100 * (of_nat (if i = j then ns ! i else 0) :: rat) / of_nat (ns ! i) =
           (if i = j then 100 else 0)" for i
    using assms(2) by simp
  show "(\<Sum>b\<leftarrow>spike ns j. 100 * of_nat (n_correct b) / of_nat (bsize b)) = (100::rat)"
    using assms(1) by (simp add: spike_def comp_def b sum_list_delta)
  show "length (spike ns j) = length ns" by (simp add: spike_def)
qed

lemma unequal_sizes_index:
  assumes "\<exists>a\<in>set ns. \<exists>b\<in>set ns. a \<noteq> (b::nat)"
  shows "\<exists>j<length ns. ns ! j * length ns \<noteq> sum_list ns"
proof (rule ccontr)
  assume "\<not> ?thesis"
  then have all: "\<forall>j<length ns. ns ! j * length ns = sum_list ns" by auto
  from assms obtain a b where ab: "a \<in> set ns" "b \<in> set ns" "a \<noteq> b" by blast
  then have k: "0 < length ns" by (cases ns) auto
  from ab all have "a * length ns = sum_list ns" "b * length ns = sum_list ns"
    by (auto simp: in_set_conv_nth)
  then have "a * length ns = b * length ns" by simp
  with k ab(3) show False by simp
qed

lemma unequal_sizes_differ:
  assumes pos: "\<forall>b\<in>set bs. 0 < bsize b"
    and ne: "\<exists>b\<in>set bs. \<exists>c\<in>set bs. bsize b \<noteq> bsize c"
  shows "\<exists>bs'. map bsize bs' = map bsize bs \<and> (\<forall>b\<in>set bs'. n_correct b \<le> bsize b) \<and>
           size_weighted_loss bs' \<noteq> mean_of_batch_losses bs' \<and>
           size_weighted_acc bs' \<noteq> mean_of_batch_accs bs'"
proof -
  let ?ns = "map bsize bs"
  from ne have "\<exists>a\<in>set ?ns. \<exists>b\<in>set ?ns. a \<noteq> b" by auto
  from unequal_sizes_index[OF this] obtain j where j: "j < length ?ns"
    and d: "?ns ! j * length ?ns \<noteq> sum_list ?ns" by blast
  have nj: "0 < ?ns ! j" using pos j by simp
  have N: "0 < sum_list ?ns"
  proof -
    have "?ns ! j \<in> set ?ns" using j by (intro nth_mem)
    then have "?ns ! j \<le> sum_list ?ns" by (simp add: member_le_sum_list)
    with nj show ?thesis by simp
  qed
  have k: "0 < length ?ns" using j by (cases bs) simp_all
  have neq: "(of_nat (?ns ! j) :: rat) / of_nat (sum_list ?ns) \<noteq> 1 / of_nat (length ?ns)"
  proof
    assume "(of_nat (?ns ! j) :: rat) / of_nat (sum_list ?ns) = 1 / of_nat (length ?ns)"
    then have "(of_nat (?ns ! j) :: rat) * of_nat (length ?ns) = of_nat (sum_list ?ns)"
      using N k by (simp add: field_simps)
    then have "(of_nat (?ns ! j * length ?ns) :: rat) = of_nat (sum_list ?ns)" by simp
    then have "?ns ! j * length ?ns = sum_list ?ns" by (simp only: of_nat_eq_iff)
    with d show False by simp
  qed
  have l: "size_weighted_loss (spike ?ns j) \<noteq> mean_of_batch_losses (spike ?ns j)"
    unfolding size_weighted_loss_def mean_of_batch_losses_def spike_sums[OF j nj]
    using neq .
  have "100 * (of_nat (?ns ! j) :: rat) / of_nat (sum_list ?ns) \<noteq> 100 / of_nat (length ?ns)"
    using neq by simp
  then have a: "size_weighted_acc (spike ?ns j) \<noteq> mean_of_batch_accs (spike ?ns j)"
    unfolding size_weighted_acc_def mean_of_batch_accs_def spike_sums[OF j nj] .
  show ?thesis
    using l a spike_sizes[of ?ns j] spike_correct[of ?ns j]
    by (intro exI[of _ "spike ?ns j"]) simp
qed

text \<open>
  C9, as the code has it.  For every epoch of the loop that completes, the loss and the accuracy appended to
  the history, for the training and for the validation pass, are the size-weighted
  aggregates over the batches: the sum of each batch's loss times its size divided by
  the number of samples, and 100 times the number of correct predictions divided by the
  number of samples; \<open>epoch_metrics\<close> returns exactly these two values.  They are not
  the plain means of the per-batch losses and accuracies.  The two rules give the same
  values whenever all batches have one size; and they agree on all batch outcomes only
  then: for any positive batch sizes that are not all equal, some batches of those sizes
  give an epoch loss and an epoch accuracy that differ from the plain means.  In a single
  epoch the two can agree although the sizes differ.
\<close>

theorem epoch_metrics_size_weighted:
  "(run_epoch patience epoch r st = Inr (st', brk) \<longrightarrow>
      history st' =
        append_history (size_weighted_loss (train_batches r)) (size_weighted_acc (train_batches r))
          (size_weighted_loss (val_batches r)) (size_weighted_acc (val_batches r)) (history st)) \<and>
   (epoch_metrics bs = Inr (l, a) \<longrightarrow>
      l = size_weighted_loss bs \<and> a = size_weighted_acc bs) \<and>
   (bs \<noteq> [] \<and> 0 < n \<and> (\<forall>b\<in>set bs. bsize b = n) \<longrightarrow>
      epoch_metrics bs = Inr (mean_of_batch_losses bs, mean_of_batch_accs bs)) \<and>
   ((\<forall>b\<in>set bs. 0 < bsize b) \<and> (\<exists>b\<in>set bs. \<exists>c\<in>set bs. bsize b \<noteq> bsize c) \<longrightarrow>
      (\<exists>bs' l' a'. map bsize bs' = map bsize bs \<and> (\<forall>b\<in>set bs'. n_correct b \<le> bsize b) \<and>
         epoch_metrics bs' = Inr (l', a') \<and>
         l' \<noteq> mean_of_batch_losses bs' \<and> a' \<noteq> mean_of_batch_accs bs'))"
proof (intro conjI impI)
  assume "run_epoch patience epoch r st = Inr (st', brk)"
  then show "history st' =
        append_history (size_weighted_loss (train_batches r)) (size_weighted_acc (train_batches r))
          (size_weighted_loss (val_batches r)) (size_weighted_acc (val_batches r)) (history st)"
    by (rule run_epoch_history)
next
  assume "epoch_metrics bs = Inr (l, a)"
  then show "l = size_weighted_loss bs" "a = size_weighted_acc bs"
    by (simp_all add: epoch_metrics_eq split: if_splits)
next
  assume h: "bs \<noteq> [] \<and> 0 < n \<and> (\<forall>b\<in>set bs. bsize b = n)"
  then have "(\<Sum>b\<leftarrow>bs. bsize b) = length bs * n" by (simp add: equal_sizes_sums(1))
  then have "(\<Sum>b\<leftarrow>bs. bsize b) \<noteq> 0" using h by simp
  then show "epoch_metrics bs = Inr (mean_of_batch_losses bs, mean_of_batch_accs bs)"
    using h equal_sizes_coincide[of bs n] by (simp add: epoch_metrics_eq)
next
  assume h: "(\<forall>b\<in>set bs. 0 < bsize b) \<and> (\<exists>b\<in>set bs. \<exists>c\<in>set bs. bsize b \<noteq> bsize c)"
  then obtain bs' where b: "map bsize bs' = map bsize bs" "\<forall>b\<in>set bs'. n_correct b \<le> bsize b"
    "size_weighted_loss bs' \<noteq> mean_of_batch_losses bs'"
    "size_weighted_acc bs' \<noteq> mean_of_batch_accs bs'"
    using unequal_sizes_differ[of bs] by blast
  from h obtain x where "x \<in> set bs" "0 < bsize x" by blast
  then have "bsize x \<le> sum_list (map bsize bs)" by (simp add: member_le_sum_list)
  with \<open>0 < bsize x\<close> have "sum_list (map bsize bs) \<noteq> 0" by linarith
  then have "sum_list (map bsize bs') \<noteq> 0" unfolding b(1) .
  then have "epoch_metrics bs' = Inr (size_weighted_loss bs', size_weighted_acc bs')"
    by (simp add: epoch_metrics_eq)
  with b show "\<exists>bs' l' a'. map bsize bs' = map bsize bs \<and>
         (\<forall>b\<in>set bs'. n_correct b \<le> bsize b) \<and>
         epoch_metrics bs' = Inr (l', a') \<and>
         l' \<noteq> mean_of_batch_losses bs' \<and> a' \<noteq> mean_of_batch_accs bs'" by blast
qed

text \<open>
  The theorem on concrete epochs.  Batches of sizes 1 and 3 with losses 1 and 3: the
  epoch loss is \<open>(1 * 1 + 3 * 3) / 4 = 5 / 2\<close>, not the plain mean 2, and the accuracy is
  25.  Two batches of size 2: the epoch values are the plain means 2 and 75.  And an
  epoch of the loop with these training and validation batches appends these values.
\<close>

theorem epoch_metrics_size_weighted_witness:
  "epoch_metrics uneven_batches = Inr (5 / 2, 25) \<and>
   size_weighted_loss uneven_batches = 5 / 2 \<and>
   mean_of_batch_losses uneven_batches = 2 \<and>
   epoch_metrics even_batches =
     Inr (mean_of_batch_losses even_batches, mean_of_batch_accs even_batches) \<and>
   mean_of_batch_losses even_batches = 2 \<and> mean_of_batch_accs even_batches = 75 \<and>
   run_epoch 15 0 \<lparr>train_batches = uneven_batches, val_batches = even_batches\<rparr>
       (init_state None) =
     Inr (\<lparr>history = \<lparr>train_loss = [5 / 2], train_acc = [25], val_loss = [2], val_acc = [75]\<rparr>,
           best_val_acc = 75, epochs_without_improvement = 0,
           saved = Some \<lparr>ck_epoch = 0, ck_val_acc = 75\<rparr>\<rparr>, False) \<and>
   (\<exists>bs' l' a'. map bsize bs' = map bsize uneven_batches \<and>
       epoch_metrics bs' = Inr (l', a') \<and>
       l' \<noteq> mean_of_batch_losses bs' \<and> a' \<noteq> mean_of_batch_accs bs')"
proof -
  have e1: "epoch_metrics uneven_batches = Inr (5 / 2, 25)"
    by (simp add: epoch_metrics_def uneven_batches_def)
  have e2: "epoch_metrics even_batches = Inr (2, 75)"
    by (simp add: epoch_metrics_def even_batches_def)
  have m: "mean_of_batch_losses uneven_batches = 2" "mean_of_batch_losses even_batches = 2"
    "mean_of_batch_accs even_batches = 75"
    by (simp_all add: mean_of_batch_losses_def mean_of_batch_accs_def uneven_batches_def
          even_batches_def)
  have r: "run_epoch 15 0 \<lparr>train_batches = uneven_batches, val_batches = even_batches\<rparr>
       (init_state None) =
     Inr (\<lparr>history = \<lparr>train_loss = [5 / 2], train_acc = [25], val_loss = [2], val_acc = [75]\<rparr>,
           best_val_acc = 75, epochs_without_improvement = 0,
           saved = Some \<lparr>ck_epoch = 0, ck_val_acc = 75\<rparr>\<rparr>, False)"
    by (simp add: run_epoch_def e1 e2 early_stopping_def init_state_def append_history_def)
  have s: "(\<forall>b\<in>set uneven_batches. 0 < bsize b) \<and>
           (\<exists>b\<in>set uneven_batches. \<exists>c\<in>set uneven_batches. bsize b \<noteq> bsize c)"
    by (auto simp: uneven_batches_def)
  note t = epoch_metrics_size_weighted[of 15 0
      "\<lparr>train_batches = uneven_batches, val_batches = even_batches\<rparr>" "init_state None"
      _ False uneven_batches "5 / 2" 25]
  from t e1 have w: "size_weighted_loss uneven_batches = 5 / 2" by simp
  from t s have x: "\<exists>bs' l' a'. map bsize bs' = map bsize uneven_batches \<and>
       epoch_metrics bs' = Inr (l', a') \<and>
       l' \<noteq> mean_of_batch_losses bs' \<and> a' \<noteq> mean_of_batch_accs bs'"
    by blast
  show ?thesis using e1 e2 m r w x by simp
qed

text \<open>
  C9 as stated fails in its last clause: the size-weighted values and the plain means
  can coincide although the batches differ in size.  With batches of sizes 1 and 3 that
  each have loss 1 and every sample right, the epoch loss is 1 and the epoch accuracy is
  100, and so are the plain means of the per-batch losses and accuracies.
\<close>

theorem equal_values_coincide_with_unequal_sizes:
  "map bsize uniform_batches = [1, 3] \<and>
   epoch_metrics uniform_batches = Inr (1, 100) \<and>
   mean_of_batch_losses uniform_batches = 1 \<and>
   mean_of_batch_accs uniform_batches = 100"
  by (simp add: uniform_batches_def epoch_metrics_def mean_of_batch_losses_def
       mean_of_batch_accs_def)

section \<open>Properties of the training loop\<close>

lemma loop_inv_init: "loop_inv ck0 0 (init_state ck0)"
  by (simp add: loop_inv_def init_state_def)

lemma Max_snoc: "Max (set (0 # h @ [va])) = max va (Max (set (0 # h)))" for va :: rat
proof -
  have "set (0 # h @ [va]) = insert va (set (0 # h))" by auto
  then show ?thesis
    by (simp only: Max_insert[OF finite_set]) (simp add: max.commute max.left_commute)
qed

lemma nth_le_Max0: "j < length h \<Longrightarrow> h ! j \<le> Max (set (0 # h))" for h :: "rat list"
  by (simp add: Max_ge)

lemma Max0_nonneg: "0 \<le> Max (set (0 # h))" for h :: "rat list"
  by simp

lemma early_stopping_inv:
  assumes inv: "loop_inv ck0 n st0"
    and h: "history st = append_history trl tra vl va (history st0)"
    and b: "best_val_acc st = best_val_acc st0"
    and c: "epochs_without_improvement st = epochs_without_improvement st0"
    and s: "saved st = saved st0"
    and es: "early_stopping patience n va st = (st', brk)"
  shows "loop_inv ck0 (Suc n) st'"
proof -
  let ?h = "val_acc (history st0)"
  have len: "length ?h = n" and best: "best_val_acc st0 = Max (set (0 # ?h))"
    using inv by (simp_all add: loop_inv_def)
  have hv: "val_acc (history st) = ?h @ [va]"
    using h by (simp add: append_history_def)
  show ?thesis
  proof (cases "va > best_val_acc st")
    case True
    then have st': "st' = st\<lparr>best_val_acc := va, epochs_without_improvement := 0,
                saved := Some \<lparr>ck_epoch = n, ck_val_acc = va\<rparr>\<rparr>"
      using es by (simp add: early_stopping_def)
    have pos: "va \<noteq> 0" using True b best Max0_nonneg[of ?h] by simp
    have lt: "\<forall>j<n. (?h @ [va]) ! j < va"
    proof (intro allI impI)
      fix j assume "j < n"
      then have "?h ! j \<le> Max (set (0 # ?h))" using len nth_le_Max0 by blast
      then show "(?h @ [va]) ! j < va" using True b best \<open>j < n\<close> len by (simp add: nth_append)
    qed
    have gt: "best_val_acc st0 < va" using True b by simp
    have mx: "Max (set (0 # ?h @ [va])) = va"
      unfolding Max_snoc best[symmetric] using gt by (simp only: max_absorb1 less_imp_le)
    show ?thesis
      unfolding loop_inv_def st' using hv len pos lt mx
      by (auto simp: nth_append)
  next
    case False
    then have st': "st' = st\<lparr>epochs_without_improvement := epochs_without_improvement st + 1\<rparr>"
      using es by (simp add: early_stopping_def)
    have le: "va \<le> best_val_acc st0" using False b by simp
    have mx: "Max (set (0 # ?h @ [va])) = best_val_acc st0"
      unfolding Max_snoc best[symmetric] using le by (simp only: max_absorb2)
    show ?thesis
    proof (cases "best_val_acc st0 = 0")
      case True
      then show ?thesis
        unfolding loop_inv_def st' using hv len mx inv b c s
        by (simp add: loop_inv_def)
    next
      case nz: False
      then obtain E where E: "E < n" "?h ! E = best_val_acc st0"
        "\<forall>j<E. ?h ! j < best_val_acc st0"
        "saved st0 = Some \<lparr>ck_epoch = E, ck_val_acc = best_val_acc st0\<rparr>"
        "E + epochs_without_improvement st0 + 1 = n"
        using inv by (auto simp: loop_inv_def)
      have "\<exists>E<Suc n. (?h @ [va]) ! E = best_val_acc st0 \<and>
              (\<forall>j<E. (?h @ [va]) ! j < best_val_acc st0) \<and>
              saved st0 = Some \<lparr>ck_epoch = E, ck_val_acc = best_val_acc st0\<rparr> \<and>
              E + (epochs_without_improvement st0 + 1) + 1 = Suc n"
        using E len by (intro exI[of _ E]) (auto simp: nth_append)
      then show ?thesis
        unfolding loop_inv_def st' using hv len mx nz b c s
        by simp
    qed
  qed
qed

lemma early_stopping_brk:
  assumes es: "early_stopping patience n va st = (st', brk)"
    and mc: "may_continue patience st"
  shows "if brk then just_broke patience st' else may_continue patience st'"
  using es mc
  by (auto simp: early_stopping_def may_continue_def just_broke_def split: if_splits)

lemma run_epoch_inv:
  assumes "loop_inv ck0 n st" "may_continue patience st"
    and "run_epoch patience n r st = Inr (st', brk)"
  shows "loop_inv ck0 (Suc n) st' \<and>
         (if brk then just_broke patience st' else may_continue patience st')"
proof -
  from assms(3) obtain trl tra vl va where
    es: "early_stopping patience n va
           (st\<lparr>history := append_history trl tra vl va (history st)\<rparr>) = (st', brk)"
    by (auto simp: run_epoch_def split: sum.splits prod.splits)
  have 1: "loop_inv ck0 (Suc n) st'"
    by (rule early_stopping_inv[OF assms(1) _ _ _ _ es]) simp_all
  have "may_continue patience (st\<lparr>history := append_history trl tra vl va (history st)\<rparr>)"
    using assms(2) by (simp add: may_continue_def)
  from early_stopping_brk[OF es this] 1 show ?thesis by simp
qed

lemma train_loop_inv:
  assumes "train_loop patience runs [n..<m] st = Inr st'"
    and "loop_inv ck0 n st" "may_continue patience st" "n \<le> m"
  shows "\<exists>k. loop_inv ck0 k st' \<and> n \<le> k \<and> k \<le> m \<and>
           ((k = m \<and> may_continue patience st') \<or> just_broke patience st')"
  using assms
proof (induction "m - n" arbitrary: n st)
  case 0
  then have "st' = st" "n = m" by simp_all
  with 0 show ?case by auto
next
  case (Suc d)
  then have nm: "n < m" and up: "[n..<m] = n # [Suc n..<m]"
    by (simp_all add: upt_conv_Cons)
  from Suc.prems(1) obtain st1 brk where
    re: "run_epoch patience n (runs n) st = Inr (st1, brk)"
    and rest: "if brk then st' = st1 else train_loop patience runs [Suc n..<m] st1 = Inr st'"
    unfolding up by (auto split: sum.splits prod.splits if_splits)
  from run_epoch_inv[OF Suc.prems(2,3) re]
  have i1: "loop_inv ck0 (Suc n) st1"
    and b1: "if brk then just_broke patience st1 else may_continue patience st1" by simp_all
  show ?case
  proof (cases brk)
    case True
    then show ?thesis using rest i1 b1 nm by (intro exI[of _ "Suc n"]) auto
  next
    case False
    then have tl: "train_loop patience runs [Suc n..<m] st1 = Inr st'"
      and mc: "may_continue patience st1" using rest b1 by simp_all
    have "d = m - Suc n" using Suc.hyps(2) by simp
    from Suc.hyps(1)[OF this tl i1 mc] nm
    obtain k where "loop_inv ck0 k st'" "Suc n \<le> k" "k \<le> m"
      "(k = m \<and> may_continue patience st') \<or> just_broke patience st'" by auto
    then show ?thesis by (intro exI[of _ k]) auto
  qed
qed

lemma train_inv:
  assumes "train epochs patience runs ck0 = Inr st"
  shows "\<exists>k. loop_inv ck0 k st \<and> k \<le> nat epochs \<and>
           ((k = nat epochs \<and> may_continue patience st) \<or> just_broke patience st)"
proof -
  have mc: "may_continue patience (init_state ck0)"
    by (simp add: may_continue_def init_state_def)
  from train_loop_inv[OF assms[unfolded train_def] loop_inv_init mc]
  show ?thesis by auto
qed

text \<open>Three concrete runs, evaluated.\<close>

lemma run_with_tie:
  "train 10 2 (runs_from [1, 2, 1, 2, 0, 4]) None =
     Inr \<lparr>history = \<lparr>train_loss = [1, 1, 1, 1], train_acc = [50, 50, 50, 50],
                      val_loss = [1 / 2, 1 / 2, 1 / 2, 1 / 2], val_acc = [25, 50, 25, 50]\<rparr>,
          best_val_acc = 50, epochs_without_improvement = 2,
          saved = Some \<lparr>ck_epoch = 1, ck_val_acc = 50\<rparr>\<rparr>"
  by code_simp

lemma run_without_improvement:
  "train 2 15 (runs_from []) ck0 =
     Inr \<lparr>history = \<lparr>train_loss = [1, 1], train_acc = [50, 50],
                      val_loss = [1 / 2, 1 / 2], val_acc = [0, 0]\<rparr>,
          best_val_acc = 0, epochs_without_improvement = 2, saved = ck0\<rparr>"
  by (simp add: train_def upt_rec init_state_def runs_from_def example_run_def run_epoch_def
       epoch_metrics_def early_stopping_def append_history_def)

lemma run_with_patience_zero:
  "train 3 0 (runs_from [2, 1, 0]) None =
     Inr \<lparr>history = \<lparr>train_loss = [1, 1], train_acc = [50, 50],
                      val_loss = [1 / 2, 1 / 2], val_acc = [50, 25]\<rparr>,
          best_val_acc = 50, epochs_without_improvement = 1,
          saved = Some \<lparr>ck_epoch = 0, ck_val_acc = 50\<rparr>\<rparr>"
  by code_simp

text \<open>
  C1, as the code has it.  For every training run that returns: if some recorded
  validation accuracy is above 0, the returned \<open>best_val_acc\<close> is the maximum of the
  recorded validation accuracies, and the checkpoint file holds that maximum and the
  earliest epoch that reached it (every earlier epoch is strictly below it, so a later
  epoch with an equal value has not overwritten it).  If no recorded validation accuracy
  is above 0, the run has written no checkpoint: the file is what it was before the run,
  and the returned \<open>best_val_acc\<close> is the initial 0.
\<close>

theorem best_checkpoint_earliest_max:
  assumes "train epochs patience runs ck0 = Inr st"
  shows "((\<exists>v\<in>set (val_acc (history st)). 0 < v) \<longrightarrow>
            best_val_acc st = Max (set (val_acc (history st))) \<and>
            (\<exists>E<length (val_acc (history st)).
               saved st = Some \<lparr>ck_epoch = E, ck_val_acc = Max (set (val_acc (history st)))\<rparr> \<and>
               val_acc (history st) ! E = Max (set (val_acc (history st))) \<and>
               (\<forall>j<E. val_acc (history st) ! j < Max (set (val_acc (history st)))))) \<and>
         ((\<forall>v\<in>set (val_acc (history st)). v \<le> 0) \<longrightarrow>
            best_val_acc st = 0 \<and> saved st = ck0)"
proof -
  let ?h = "val_acc (history st)"
  from train_inv[OF assms] obtain k where inv: "loop_inv ck0 k st" by blast
  then have best: "best_val_acc st = Max (set (0 # ?h))" and len: "length ?h = k"
    by (simp_all add: loop_inv_def)
  have pos: "best_val_acc st = Max (set ?h) \<and> best_val_acc st \<noteq> 0" if "\<exists>v\<in>set ?h. 0 < v"
  proof -
    from that obtain v where v: "v \<in> set ?h" "0 < v" by blast
    then have ne: "set ?h \<noteq> {}" by auto
    have "v \<le> Max (set ?h)" using v(1) by (rule Max_ge[OF finite_set])
    with v(2) have "0 < Max (set ?h)" by (rule less_le_trans)
    moreover have "Max (set (0 # ?h)) = max 0 (Max (set ?h))"
      using ne by (simp add: Max_insert)
    ultimately show ?thesis using best by simp
  qed
  have nonpos: "best_val_acc st = 0" if "\<forall>v\<in>set ?h. v \<le> 0"
  proof -
    have a: "Max (set (0 # ?h)) \<le> 0" using that by (subst Max_le_iff) auto
    have b: "0 \<le> Max (set (0 # ?h))" by (rule Max0_nonneg)
    from a b have "Max (set (0 # ?h)) = 0" by (rule antisym)
    with best show ?thesis by (simp only:)
  qed
  show ?thesis
  proof (intro conjI impI)
    assume a: "\<exists>v\<in>set ?h. 0 < v"
    from pos[OF a] show "best_val_acc st = Max (set ?h)" by simp
    from pos[OF a] inv len
    show "\<exists>E<length ?h. saved st = Some \<lparr>ck_epoch = E, ck_val_acc = Max (set ?h)\<rparr> \<and>
               ?h ! E = Max (set ?h) \<and> (\<forall>j<E. ?h ! j < Max (set ?h))"
      by (auto simp: loop_inv_def)
  next
    assume a: "\<forall>v\<in>set ?h. v \<le> 0"
    from nonpos[OF a] show "best_val_acc st = 0" .
    from nonpos[OF a] inv show "saved st = ck0" by (simp add: loop_inv_def)
  qed
qed

text \<open>
  A run of the theorem: validation accuracies 25, 50, 25, 50 with patience 2.  The
  maximum 50 is reached in epochs 1 and 3, and the file holds epoch 1.  And a run whose
  validation accuracy is 0 in both epochs, started with no file: there is none after it.
\<close>

theorem best_checkpoint_earliest_max_witness:
  "best_val_acc
     \<lparr>history = \<lparr>train_loss = [1, 1, 1, 1], train_acc = [50, 50, 50, 50],
                 val_loss = [1 / 2, 1 / 2, 1 / 2, 1 / 2], val_acc = [25, 50, 25, 50]\<rparr>,
      best_val_acc = 50, epochs_without_improvement = 2,
      saved = Some \<lparr>ck_epoch = 1, ck_val_acc = 50\<rparr>\<rparr> = Max (set [25, 50, 25, 50]) \<and>
   train 10 2 (runs_from [1, 2, 1, 2, 0, 4]) None =
     Inr \<lparr>history = \<lparr>train_loss = [1, 1, 1, 1], train_acc = [50, 50, 50, 50],
                      val_loss = [1 / 2, 1 / 2, 1 / 2, 1 / 2], val_acc = [25, 50, 25, 50]\<rparr>,
          best_val_acc = 50, epochs_without_improvement = 2,
          saved = Some \<lparr>ck_epoch = 1, ck_val_acc = 50\<rparr>\<rparr> \<and>
   saved \<lparr>history = \<lparr>train_loss = [1, 1], train_acc = [50, 50],
                     val_loss = [1 / 2, 1 / 2], val_acc = [0, 0]\<rparr>,
          best_val_acc = 0, epochs_without_improvement = 2, saved = None\<rparr> = None"
  using best_checkpoint_earliest_max[OF run_with_tie]
    best_checkpoint_earliest_max[OF run_without_improvement[of None] ] run_with_tie
  by simp

text \<open>
  C1 as stated fails on a run in which no epoch gets a validation sample right.  The
  history is recorded and its maximum is 0, but nothing is saved: with a checkpoint of
  an earlier run in the output directory (epoch 4, validation accuracy 90) the stored
  checkpoint's value is 90, not the maximum 0 of this run's history; with an empty
  output directory there is no stored checkpoint at all.
\<close>

theorem no_improvement_no_checkpoint:
  "train 2 15 (runs_from []) (Some \<lparr>ck_epoch = 4, ck_val_acc = 90\<rparr>) =
     Inr \<lparr>history = \<lparr>train_loss = [1, 1], train_acc = [50, 50],
                      val_loss = [1 / 2, 1 / 2], val_acc = [0, 0]\<rparr>,
          best_val_acc = 0, epochs_without_improvement = 2,
          saved = Some \<lparr>ck_epoch = 4, ck_val_acc = 90\<rparr>\<rparr> \<and>
   train 2 15 (runs_from []) None =
     Inr \<lparr>history = \<lparr>train_loss = [1, 1], train_acc = [50, 50],
                      val_loss = [1 / 2, 1 / 2], val_acc = [0, 0]\<rparr>,
          best_val_acc = 0, epochs_without_improvement = 2, saved = None\<rparr> \<and>
   Max (set [0, 0 :: rat]) \<noteq> 90"
  using run_without_improvement[of "Some \<lparr>ck_epoch = 4, ck_val_acc = 90\<rparr>"]
    run_without_improvement[of None]
  by simp

text \<open>
  C2, as the code has it.  For every training run that returns, with patience \<open>p\<close>: if
  the validation accuracy last strictly improved at epoch \<open>E\<close> of the recorded history
  (epochs counted from 0: it is above 0 and above every earlier epoch, and no later
  epoch is above it), then the run ends exactly after epoch \<open>E + max 1 p\<close> whenever that
  epoch is within the \<open>epochs\<close> of the call, so the history has \<open>E + max 1 p + 1\<close>
  entries, and it runs all \<open>epochs\<close> epochs otherwise.  For every \<open>p \<ge> 1\<close> this is epoch
  \<open>E + p\<close>; the counter is compared with the patience only after it was incremented, so
  with \<open>p \<le> 0\<close> the loop still runs one epoch without improvement before it breaks.
\<close>

theorem early_stop_after_patience:
  assumes run: "train epochs patience runs ck0 = Inr st"
    and E: "E < length (val_acc (history st))"
    and imp: "0 < val_acc (history st) ! E"
      "\<forall>j<E. val_acc (history st) ! j < val_acc (history st) ! E"
    and last: "\<forall>j<length (val_acc (history st)).
                 E < j \<longrightarrow> val_acc (history st) ! j \<le> val_acc (history st) ! E"
  shows "(int E + max 1 patience < epochs \<longrightarrow>
            int (length (val_acc (history st))) = int E + max 1 patience + 1) \<and>
         (epochs \<le> int E + max 1 patience \<longrightarrow> int (length (val_acc (history st))) = epochs)"
proof -
  let ?h = "val_acc (history st)"
  from train_inv[OF run] obtain k where inv: "loop_inv ck0 k st" and k: "k \<le> nat epochs"
    and fin: "(k = nat epochs \<and> may_continue patience st) \<or> just_broke patience st" by blast
  have len: "length ?h = k" and best: "best_val_acc st = Max (set (0 # ?h))"
    using inv by (simp_all add: loop_inv_def)
  have all_le: "v \<le> ?h ! E" if "v \<in> set ?h" for v
  proof -
    from that obtain j where j: "j < length ?h" "v = ?h ! j" by (auto simp: in_set_conv_nth)
    consider "j < E" | "j = E" | "E < j" by linarith
    then show ?thesis using imp(2) last j by cases auto
  qed
  have "Max (set (0 # ?h)) = ?h ! E"
  proof (rule Max_eqI)
    show "?h ! E \<in> set (0 # ?h)" using E by simp
    show "y \<le> ?h ! E" if "y \<in> set (0 # ?h)" for y using that all_le imp(1) by auto
  qed simp
  then have bE: "best_val_acc st = ?h ! E" using best by simp
  then have nz: "best_val_acc st \<noteq> 0" using imp(1) by simp
  from inv nz obtain E' where E': "E' < k" "?h ! E' = best_val_acc st"
     "\<forall>j<E'. ?h ! j < best_val_acc st" "E' + epochs_without_improvement st + 1 = k"
    by (auto simp: loop_inv_def)
  have "E' = E"
  proof (rule ccontr)
    assume "E' \<noteq> E"
    then consider "E' < E" | "E < E'" by linarith
    then show False using E' imp(2) bE by cases auto
  qed
  then have c: "E + epochs_without_improvement st + 1 = k" using E' by simp
  show ?thesis
    using fin c k len
    by (auto simp: may_continue_def just_broke_def max_def)
qed

text \<open>
  A run of the theorem: with patience 2 and validation accuracies 25, 50, 25, 50, ... the
  last strict improvement is epoch 1, and the history ends after epoch 3, with 4 entries.
\<close>

theorem early_stop_after_patience_witness:
  "train 10 2 (runs_from [1, 2, 1, 2, 0, 4]) None =
     Inr \<lparr>history = \<lparr>train_loss = [1, 1, 1, 1], train_acc = [50, 50, 50, 50],
                      val_loss = [1 / 2, 1 / 2, 1 / 2, 1 / 2], val_acc = [25, 50, 25, 50]\<rparr>,
          best_val_acc = 50, epochs_without_improvement = 2,
          saved = Some \<lparr>ck_epoch = 1, ck_val_acc = 50\<rparr>\<rparr> \<and>
   int (length [25, 50, 25, 50 :: rat]) = int 1 + max 1 2 + 1"
proof -
  have a: "\<forall>j<length [25, 50, 25, 50 :: rat].
             1 < j \<longrightarrow> [25, 50, 25, 50 :: rat] ! j \<le> [25, 50, 25, 50] ! 1"
    by (simp add: nth_Cons' less_Suc_eq)
  have b: "\<forall>j<1. [25, 50, 25, 50 :: rat] ! j < [25, 50, 25, 50] ! 1"
    by simp
  show ?thesis
    using early_stop_after_patience[OF run_with_tie, of 1] a b run_with_tie
    by simp
qed

text \<open>
  C2 as stated fails for patience 0.  With validation accuracies 50, 25, 0 and three
  epochs allowed, the last strict improvement is epoch 0 and no epoch follows within the
  patience, so the training should end after epoch 0; the loop runs epoch 1 as well and
  breaks there, and the history has two entries.
\<close>

theorem zero_patience_runs_one_more_epoch:
  "train 3 0 (runs_from [2, 1, 0]) None =
     Inr \<lparr>history = \<lparr>train_loss = [1, 1], train_acc = [50, 50],
                      val_loss = [1 / 2, 1 / 2], val_acc = [50, 25]\<rparr>,
          best_val_acc = 50, epochs_without_improvement = 1,
          saved = Some \<lparr>ck_epoch = 0, ck_val_acc = 50\<rparr>\<rparr> \<and>
   length [50, 25 :: rat] \<noteq> 0 + 0 + 1"
  using run_with_patience_zero by simp

section \<open>Properties of the sequence batches\<close>

lemma fold_max_ge: "a \<le> fold max xs a" for xs :: "nat list"
  by (induction xs arbitrary: a) (auto intro: order_trans[OF max.cobounded2])

lemma fold_max_mem: "x \<in> set xs \<Longrightarrow> x \<le> fold max xs a" for xs :: "nat list"
proof (induction xs arbitrary: a)
  case Nil
  then show ?case by simp
next
  case (Cons y ys)
  show ?case
  proof (cases "x = y")
    case True
    have "x \<le> max y a" using True by simp
    also have "\<dots> \<le> fold max ys (max y a)" by (rule fold_max_ge)
    finally show ?thesis by simp
  next
    case False
    then show ?thesis using Cons by simp
  qed
qed

lemma collate_A_B:
  "collate_sequences [item_A, item_B] =
     Inr ([ [ [0, 1], [0, 0] ], [ [1, 0], [1, 0] ] ], [1, 0], [1, 2])"
  by code_simp

lemma collate_A0_B:
  "collate_sequences [item_A0, item_B] =
     Inr ([ [ [0, 1], [0, 0] ], [ [1, 0], [1, 0] ] ], [1, 0], [2, 2])"
  by code_simp

lemma collate_A: "collate_sequences [item_A] = Inr ([ [ [0, 1] ] ], [1], [1])"
  by code_simp

lemma collate_B: "collate_sequences [item_B] = Inr ([ [ [1, 0], [1, 0] ] ], [0], [2])"
  by code_simp

lemma step_A_B:
  "batch_step last_step_model zero_one_loss
     ([ [ [0, 1], [0, 0] ], [ [1, 0], [1, 0] ] ], [1, 0], [1, 2]) =
     Inr \<lparr>loss_item = 1 / 2, bsize = 2, n_correct = 1\<rparr>"
  by (simp add: batch_step_def last_step_model_def zero_one_loss_def argmax_def)

lemma step_A:
  "batch_step last_step_model zero_one_loss ([ [ [0, 1] ] ], [1], [1]) =
     Inr \<lparr>loss_item = 0, bsize = 1, n_correct = 1\<rparr>"
  by (simp add: batch_step_def last_step_model_def zero_one_loss_def argmax_def)

lemma step_B:
  "batch_step last_step_model zero_one_loss ([ [ [1, 0], [1, 0] ] ], [0], [2]) =
     Inr \<lparr>loss_item = 0, bsize = 1, n_correct = 1\<rparr>"
  by (simp add: batch_step_def last_step_model_def zero_one_loss_def argmax_def)

lemma collate_wide_narrow:
  "collate_sequences [item_wide, item_narrow] =
     Inr ([ [ [1, 1, 1], [0, 0, 0] ], [ [2, 2, 2], [3, 3, 3] ] ], [0, 1], [1, 2])"
  by code_simp

text \<open>
  C3, as the code has it.  For every batch that \<open>collate_sequences\<close> produces from a
  list of items whose sequences all have the feature width of the first one, and every
  sample \<open>i\<close> of it: there is one padded slot per sample, each as long as the longest
  sequence of the batch; the first \<open>L_i\<close> rows of slot \<open>i\<close>, where \<open>L_i\<close> is the number of
  rows of sample \<open>i\<close>, are that sample's sequence unchanged; and every row from \<open>L_i\<close> up
  to the longest length is the all-zero row of that feature width.  The labels and the
  lengths of the items go through unchanged.
\<close>

theorem collate_pads_with_zero_rows:
  assumes c: "collate_sequences batch = Inr (padded, labels, lengths)"
    and w: "\<forall>s\<in>set (map fst batch). trailing s = trailing (fst (hd batch))"
    and i: "i < length batch"
  shows "length padded = length batch \<and>
         labels = map (fst \<circ> snd) batch \<and> lengths = map (snd \<circ> snd) batch \<and>
         length (padded ! i) = max_len (map fst batch) \<and>
         length (trows (fst (batch ! i))) \<le> max_len (map fst batch) \<and>
         take (length (trows (fst (batch ! i)))) (padded ! i) = trows (fst (batch ! i)) \<and>
         (\<forall>t. length (trows (fst (batch ! i))) \<le> t \<and> t < max_len (map fst batch) \<longrightarrow>
              padded ! i ! t = replicate (trailing (fst (hd batch))) 0)"
proof -
  let ?seqs = "map fst batch"
  let ?s = "fst (batch ! i)"
  from c obtain s0 rest where ne: "?seqs = s0 # rest"
    and p: "padded = map (pad_to (max_len ?seqs) (trailing s0)) ?seqs"
    and l: "labels = map (fst \<circ> snd) batch" "lengths = map (snd \<circ> snd) batch"
    by (auto simp: collate_sequences_def pad_sequence_def split: if_splits list.splits sum.splits)
  have s0: "s0 = fst (hd batch)" using ne by (cases batch) auto
  have le: "length (trows ?s) \<le> max_len ?seqs"
    unfolding max_len_def using i by (intro fold_max_mem) auto
  have "?s \<in> set ?seqs" using i by simp
  then have "trailing ?s = trailing s0" using w s0 by blast
  then have b: "broadcast_rows (trailing s0) ?s = trows ?s"
    by (simp add: broadcast_rows_def)
  have pi: "padded ! i = trows ?s @
              replicate (max_len ?seqs - length (trows ?s)) (replicate (trailing s0) 0)"
    using p i b by (simp add: pad_to_def)
  have lenp: "length padded = length batch" using p by simp
  show ?thesis
    using le l lenp by (auto simp: pi nth_append s0)
qed

text \<open>
  The theorem on the batch of \<open>item_A\<close> (one row) and \<open>item_B\<close> (two rows), both of
  feature width 2: the first row of slot 0 is the row of \<open>item_A\<close>, its second row is the
  zero row.
\<close>

theorem collate_pads_with_zero_rows_witness:
  "collate_sequences [item_A, item_B] =
     Inr ([ [ [0, 1], [0, 0] ], [ [1, 0], [1, 0] ] ], [1, 0], [1, 2]) \<and>
   trailing (fst item_A) = 2 \<and> trailing (fst item_B) = 2 \<and>
   trows (fst item_A) = [ [0, 1] ] \<and>
   max_len (map fst [item_A, item_B]) = 2 \<and>
   take 1 ([ [ [0, 1], [0, 0] ], [ [1, 0], [1, 0] ] ] ! 0) = [ [0, 1 :: rat] ] \<and>
   [ [ [0, 1], [0, 0] ], [ [1, 0], [1, 0] ] ] ! 0 ! 1 = [0, 0 :: rat]"
proof -
  let ?P = "[ [ [0, 1], [0, 0] ], [ [1, 0], [1, 0] ] ] :: rat list list list"
  have m: "max_len (map fst [item_A, item_B]) = 2"
    by (simp add: max_len_def item_A_def item_B_def)
  have a: "[item_A, item_B] ! 0 = item_A" "hd [item_A, item_B] = item_A" by simp_all
  have t: "trailing (fst item_A) = 2" "trows (fst item_A) = [ [0, 1] ]"
    by (simp_all add: item_A_def)
  have tb: "trailing (fst item_B) = 2" by (simp add: item_B_def)
  have w: "\<forall>s\<in>set (map fst [item_A, item_B]). trailing s = trailing (fst (hd [item_A, item_B]))"
    using t(1) tb by simp
  have i: "0 < length [item_A, item_B]" by simp
  note T = collate_pads_with_zero_rows[OF collate_A_B w i, unfolded a m t]
  note T' = T[THEN conjunct2, THEN conjunct2, THEN conjunct2, THEN conjunct2, THEN conjunct2]
  have 1: "take (length [ [0, 1 :: rat] ]) (?P ! 0) = [ [0, 1] ]"
    by (rule T'[THEN conjunct1])
  have "length [ [0, 1 :: rat] ] \<le> 1 \<and> (1::nat) < 2" by simp
  with T'[THEN conjunct2] have "?P ! 0 ! 1 = replicate 2 0" by blast
  then have 2: "?P ! 0 ! 1 = [0, 0]" by (simp add: numeral_2_eq_2)
  from collate_A_B t tb m 1 2 show ?thesis by simp
qed

text \<open>
  C3 as stated fails on a batch whose sequences differ in feature width.  The first item
  has one row of three features, the second has the two rows \<open>[2]\<close> and \<open>[3]\<close> of one
  feature.  The batch is produced, and the slot of the second item holds the rows
  \<open>[2, 2, 2]\<close> and \<open>[3, 3, 3]\<close>: its first two rows, the true length of that sample, are
  not the sample's sequence.
\<close>

theorem collate_broadcasts_narrow_sequence:
  "collate_sequences [item_wide, item_narrow] =
     Inr ([ [ [1, 1, 1], [0, 0, 0] ], [ [2, 2, 2], [3, 3, 3] ] ], [0, 1], [1, 2]) \<and>
   trows (fst item_narrow) = [ [2], [3] ] \<and>
   take 2 ([ [ [1, 1, 1], [0, 0, 0] ], [ [2, 2, 2], [3, 3, 3] ] ] ! 1) \<noteq> [ [2], [3 :: rat] ]"
  using collate_wide_narrow by (simp add: item_narrow_def)

text \<open>
  C4, as the code has it.  The batch carries the true lengths, but a training or
  validation step gives the model the padded sequences only and the criterion the
  outputs and the labels only: the loss, the batch size and the number of correct
  predictions of a step are the same whatever lengths the batch carries.  The loop
  masks nothing; a padded timestep reaches the model exactly as a true all-zero
  timestep does.
\<close>

theorem step_ignores_lengths:
  "batch_step model criterion (sequences, labels, lengths) =
   batch_step model criterion (sequences, labels, lengths')"
  by (simp add: batch_step_def)

text \<open>
  The theorem on two batches with one padded tensor: \<open>item_A\<close> of true length 1 padded
  next to \<open>item_B\<close>, and \<open>item_A0\<close> of true length 2 next to \<open>item_B\<close>.
\<close>

theorem step_ignores_lengths_witness:
  "collate_sequences [item_A, item_B] =
     Inr ([ [ [0, 1], [0, 0] ], [ [1, 0], [1, 0] ] ], [1, 0], [1, 2]) \<and>
   collate_sequences [item_A0, item_B] =
     Inr ([ [ [0, 1], [0, 0] ], [ [1, 0], [1, 0] ] ], [1, 0], [2, 2]) \<and>
   batch_step last_step_model zero_one_loss
     ([ [ [0, 1], [0, 0] ], [ [1, 0], [1, 0] ] ], [1, 0], [1, 2]) =
   batch_step last_step_model zero_one_loss
     ([ [ [0, 1], [0, 0] ], [ [1, 0], [1, 0] ] ], [1, 0], [2, 2])"
  using step_ignores_lengths[of last_step_model zero_one_loss
      "[ [ [0, 1], [0, 0] ], [ [1, 0], [1, 0] ] ]" "[1, 0]" "[1, 2]" "[2, 2]"]
    collate_A_B collate_A0_B
  by simp

text \<open>
  C4 as stated fails: the padding of a sample changes its prediction and the loss.  The
  model reads the last timestep.  Alone in their batches \<open>item_A\<close> and \<open>item_B\<close> are both
  classified right, with loss 0.  In one batch \<open>item_A\<close> is padded with a zero row, the
  model reads that row, and only one of the two predictions is right, with loss 1/2.
\<close>

theorem padding_changes_prediction:
  "collate_sequences [item_A] = Inr ([ [ [0, 1] ] ], [1], [1]) \<and>
   batch_step last_step_model zero_one_loss ([ [ [0, 1] ] ], [1], [1]) =
     Inr \<lparr>loss_item = 0, bsize = 1, n_correct = 1\<rparr> \<and>
   collate_sequences [item_B] = Inr ([ [ [1, 0], [1, 0] ] ], [0], [2]) \<and>
   batch_step last_step_model zero_one_loss ([ [ [1, 0], [1, 0] ] ], [0], [2]) =
     Inr \<lparr>loss_item = 0, bsize = 1, n_correct = 1\<rparr> \<and>
   collate_sequences [item_A, item_B] =
     Inr ([ [ [0, 1], [0, 0] ], [ [1, 0], [1, 0] ] ], [1, 0], [1, 2]) \<and>
   batch_step last_step_model zero_one_loss
     ([ [ [0, 1], [0, 0] ], [ [1, 0], [1, 0] ] ], [1, 0], [1, 2]) =
     Inr \<lparr>loss_item = 1 / 2, bsize = 2, n_correct = 1\<rparr>"
  using collate_A collate_B collate_A_B step_A step_B step_A_B
  by simp

section \<open>Properties of loading and splitting\<close>

lemma cut_split_partitions: "splitter_partitions cut_split"
proof -
  have "mset (drop k xs) + mset (take k xs) = mset xs" for k and xs :: "nat list"
    by (metis append_take_drop_id mset_append add.commute)
  then show ?thesis
    by (auto simp: splitter_partitions_def cut_split_def Let_def split: if_splits)
qed

lemma partition_set:
  assumes "splitter_partitions tts" "tts xs sz ys seed = Inr (a, b)"
  shows "mset a + mset b = mset xs" "set a \<union> set b = set xs"
proof -
  show m: "mset a + mset b = mset xs" using assms by (auto simp: splitter_partitions_def)
  have "set_mset (mset a + mset b) = set_mset (mset xs)" by (simp only: m)
  then show "set a \<union> set b = set xs" by simp
qed

lemma create_splits_Inr:
  assumes part: "splitter_partitions tts"
    and cs: "create_splits tts train_ratio val_ratio test_ratio seed dirs = Inr r"
  shows "mset (train_ids r) + mset (val_ids r) + mset (test_ids r) =
           mset [0..<length (load_all dirs)]"
    and "train_samples r = map (\<lambda>i. load_all dirs ! i) (train_ids r)"
    and "val_samples r = map (\<lambda>i. load_all dirs ! i) (val_ids r)"
    and "test_samples r = map (\<lambda>i. load_all dirs ! i) (test_ids r)"
proof -
  let ?n = "length (load_all dirs)"
  from cs obtain tv te tr va where
    1: "tts [0..<?n] test_ratio (map label (load_all dirs)) seed = Inr (tv, te)"
    and 2: "tts tv (val_ratio / (train_ratio + val_ratio))
              (map (\<lambda>i. map label (load_all dirs) ! i) tv) seed = Inr (tr, va)"
    and r: "r = \<lparr>train_ids = tr, val_ids = va, test_ids = te,
                 train_samples = map (\<lambda>i. load_all dirs ! i) tr,
                 val_samples = map (\<lambda>i. load_all dirs ! i) va,
                 test_samples = map (\<lambda>i. load_all dirs ! i) te\<rparr>"
    by (auto simp: create_splits_def Let_def split: if_splits sum.splits prod.splits)
  from partition_set(1)[OF part 1] partition_set(1)[OF part 2]
  show "mset (train_ids r) + mset (val_ids r) + mset (test_ids r) = mset [0..<?n]"
    by (simp add: r)
  show "train_samples r = map (\<lambda>i. load_all dirs ! i) (train_ids r)"
    "val_samples r = map (\<lambda>i. load_all dirs ! i) (val_ids r)"
    "test_samples r = map (\<lambda>i. load_all dirs ! i) (test_ids r)"
    by (simp_all add: r)
qed

text \<open>The small store, loaded and split.\<close>

lemma small_store_glosses:
  "map gloss (load_all small_store) =
     [''a'', ''a'', ''b'', ''b'', ''b'', ''b'', ''b'', ''b'', ''b'', ''b'']"
  by code_simp

lemma small_store_split:
  "map_sum id split_ids
     (create_splits cut_split (7 / 10) (15 / 100) (15 / 100) 42 small_store) =
   Inr ([4, 5, 6, 7, 8, 9], [2, 3], [0, 1])"
  by code_simp

lemma small_store_first_split:
  "cut_split [0..<length (load_all small_store)] (15 / 100)
     (map label (load_all small_store)) 42 = Inr ([2, 3, 4, 5, 6, 7, 8, 9], [0, 1])"
  by code_simp

lemma small_store_second_split:
  "cut_split [2, 3, 4, 5, 6, 7, 8, 9] (15 / 100 / (7 / 10 + 15 / 100))
     (map (\<lambda>i. map label (load_all small_store) ! i) [2, 3, 4, 5, 6, 7, 8, 9]) 42 =
   Inr ([4, 5, 6, 7, 8, 9], [2, 3])"
  by code_simp

lemma small_store_stackable:
  "stackable (map (\<lambda>i. load_all small_store ! i) [4, 5, 6, 7, 8, 9])"
  "stackable (map (\<lambda>i. load_all small_store ! i) [2, 3])"
  "stackable (map (\<lambda>i. load_all small_store ! i) [0, 1])"
  by code_simp+

lemma mset_nth_upt: "mset (map (\<lambda>i. xs ! i) [0..<length xs]) = mset xs"
  by (simp add: map_nth)

text \<open>
  C5.  Whenever \<open>create_splits\<close> returns, for any store and any ratios, with a library
  splitter that returns a rearrangement of its input cut in two: the train, val and test
  index lists are pairwise disjoint, each without repetition, and their union is exactly
  the set of indices of the loaded samples; the three returned splits are the loaded
  samples at those indices, so together they hold every loaded sample exactly once, and
  as many samples as were loaded.
\<close>

theorem splits_partition_samples:
  assumes part: "splitter_partitions tts"
    and cs: "create_splits tts train_ratio val_ratio test_ratio seed dirs = Inr r"
  shows "set (train_ids r) \<inter> set (val_ids r) = {} \<and>
         set (train_ids r) \<inter> set (test_ids r) = {} \<and>
         set (val_ids r) \<inter> set (test_ids r) = {} \<and>
         set (train_ids r) \<union> set (val_ids r) \<union> set (test_ids r) = {0..<length (load_all dirs)} \<and>
         distinct (train_ids r) \<and> distinct (val_ids r) \<and> distinct (test_ids r) \<and>
         train_samples r = map (\<lambda>i. load_all dirs ! i) (train_ids r) \<and>
         val_samples r = map (\<lambda>i. load_all dirs ! i) (val_ids r) \<and>
         test_samples r = map (\<lambda>i. load_all dirs ! i) (test_ids r) \<and>
         mset (train_samples r) + mset (val_samples r) + mset (test_samples r) =
           mset (load_all dirs) \<and>
         length (train_samples r) + length (val_samples r) + length (test_samples r) =
           length (load_all dirs)"
proof -
  let ?n = "length (load_all dirs)"
  let ?all = "train_ids r @ val_ids r @ test_ids r"
  let ?f = "\<lambda>i. load_all dirs ! i"
  note sm = create_splits_Inr(2-4)[OF part cs]
  have m: "mset ?all = mset [0..<?n]"
    using create_splits_Inr(1)[OF part cs] by (simp add: ac_simps)
  have d: "distinct ?all"
    using m by (metis distinct_upt mset_eq_imp_distinct_iff)
  have s: "set ?all = {0..<?n}"
    using m by (metis mset_eq_setD set_upt)
  have l: "length ?all = ?n"
    using m by (metis mset_eq_length length_upt diff_zero)
  have "mset (map ?f ?all) = image_mset ?f (mset ?all)" by simp
  also have "\<dots> = image_mset ?f (mset [0..<?n])" by (simp only: m)
  also have "\<dots> = mset (map ?f [0..<?n])" by simp
  also have "\<dots> = mset (load_all dirs)" by (rule mset_nth_upt)
  finally have "mset (map ?f ?all) = mset (load_all dirs)" .
  then have ms: "mset (train_samples r) + mset (val_samples r) + mset (test_samples r) =
           mset (load_all dirs)"
    by (simp add: sm ac_simps)
  have ls: "length (train_samples r) + length (val_samples r) + length (test_samples r) = ?n"
    using l by (simp add: sm)
  have ids: "set (train_ids r) \<inter> set (val_ids r) = {} \<and>
         set (train_ids r) \<inter> set (test_ids r) = {} \<and>
         set (val_ids r) \<inter> set (test_ids r) = {} \<and>
         set (train_ids r) \<union> set (val_ids r) \<union> set (test_ids r) = {0..<?n} \<and>
         distinct (train_ids r) \<and> distinct (val_ids r) \<and> distinct (test_ids r)"
    using d s by auto
  from ids sm ms ls show ?thesis by (intro conjI) (simp_all only:)
qed

text \<open>
  The theorem on the small store of ten samples with ratios 0.70 / 0.15 / 0.15: the
  splits are the indices 4..9, 2..3 and 0..1, and the returned test split is the two
  samples of class a at the indices 0 and 1.
\<close>

theorem splits_partition_samples_witness:
  "splitter_partitions cut_split \<and>
   (\<exists>r. create_splits cut_split (7 / 10) (15 / 100) (15 / 100) 42 small_store = Inr r \<and>
        split_ids r = ([4, 5, 6, 7, 8, 9], [2, 3], [0, 1]) \<and>
        set (train_ids r) \<inter> set (val_ids r) = {} \<and>
        set (train_ids r) \<inter> set (test_ids r) = {} \<and>
        set (val_ids r) \<inter> set (test_ids r) = {} \<and>
        set (train_ids r) \<union> set (val_ids r) \<union> set (test_ids r) =
          {0..<length (load_all small_store)} \<and>
        test_samples r = [load_all small_store ! 0, load_all small_store ! 1] \<and>
        val_samples r = [load_all small_store ! 2, load_all small_store ! 3] \<and>
        mset (train_samples r) + mset (val_samples r) + mset (test_samples r) =
          mset (load_all small_store) \<and>
        length (train_samples r) + length (val_samples r) + length (test_samples r) = 10)"
proof -
  from small_store_split obtain r where
    r: "create_splits cut_split (7 / 10) (15 / 100) (15 / 100) 42 small_store = Inr r"
    and ids: "split_ids r = ([4, 5, 6, 7, 8, 9], [2, 3], [0, 1])"
    by (cases "create_splits cut_split (7 / 10) (15 / 100) (15 / 100) 42 small_store") auto
  have n: "length (load_all small_store) = 10"
    using arg_cong[OF small_store_glosses, of length] by simp
  from ids have i: "train_ids r = [4, 5, 6, 7, 8, 9]" "val_ids r = [2, 3]" "test_ids r = [0, 1]"
    by (simp_all add: split_ids_def)
  note T = splits_partition_samples[OF cut_split_partitions r]
  from T i have sm: "test_samples r = [load_all small_store ! 0, load_all small_store ! 1]"
    "val_samples r = [load_all small_store ! 2, load_all small_store ! 3]"
    by simp_all
  from T n r ids sm cut_split_partitions show ?thesis by auto
qed

text \<open>
  C6, as the code has it.  \<open>create_splits\<close> requires no minimum number of samples of a
  class and raises no error of its own for a small class: it computes the minimum class
  count, prints it and goes on to the library splits.  Whenever the store is not empty,
  \<open>train_ratio + val_ratio\<close> is not 0, both calls of \<open>train_test_split\<close> return, with
  no part empty, and the samples of each split stack into one array, \<open>create_splits\<close>
  returns the three splits the library chose, whatever the number of samples of any
  class.
\<close>

theorem create_splits_checks_no_class_size:
  assumes part: "splitter_partitions tts"
    and ne: "load_all dirs \<noteq> []"
    and s1: "tts [0..<length (load_all dirs)] test_ratio (map label (load_all dirs)) seed =
               Inr (tv, te)"
    and nz: "train_ratio + val_ratio \<noteq> 0"
    and s2: "tts tv (val_ratio / (train_ratio + val_ratio))
               (map (\<lambda>i. map label (load_all dirs) ! i) tv) seed = Inr (tr, va)"
    and nonempty: "tr \<noteq> []" "va \<noteq> []" "te \<noteq> []"
    and st: "stackable (map (\<lambda>i. load_all dirs ! i) tr)"
      "stackable (map (\<lambda>i. load_all dirs ! i) va)"
      "stackable (map (\<lambda>i. load_all dirs ! i) te)"
  shows "create_splits tts train_ratio val_ratio test_ratio seed dirs =
           Inr \<lparr>train_ids = tr, val_ids = va, test_ids = te,
                train_samples = map (\<lambda>i. load_all dirs ! i) tr,
                val_samples = map (\<lambda>i. load_all dirs ! i) va,
                test_samples = map (\<lambda>i. load_all dirs ! i) te\<rparr>"
proof -
  let ?n = "length (load_all dirs)"
  have stv: "set tv \<union> set te = {0..<?n}" using partition_set(2)[OF part s1] by simp
  then have sub1: "set tv \<subseteq> {0..<?n}" and sub1': "set te \<subseteq> {0..<?n}" by blast+
  have in1: "\<not> (\<exists>i\<in>set tv. length (map label (load_all dirs)) \<le> i)"
    using sub1 by fastforce
  have "set tr \<union> set va = set tv" using partition_set(2)[OF part s2] by simp
  with sub1 have "set tr \<subseteq> {0..<?n}" "set va \<subseteq> {0..<?n}" by blast+
  with sub1' have in2: "\<not> (\<exists>i\<in>set (tr @ va @ te). ?n \<le> i)" by fastforce
  show ?thesis
    using ne s1 s2 in1 in2 nz nonempty st
    by (simp add: create_splits_def Let_def)
qed

text \<open>
  The theorem on the small store, whose class a has two samples: both library calls
  return, the samples stack, and \<open>create_splits\<close> returns the splits.
\<close>

theorem create_splits_checks_no_class_size_witness:
  "create_splits cut_split (7 / 10) (15 / 100) (15 / 100) 42 small_store =
     Inr \<lparr>train_ids = [4, 5, 6, 7, 8, 9], val_ids = [2, 3], test_ids = [0, 1],
          train_samples = map (\<lambda>i. load_all small_store ! i) [4, 5, 6, 7, 8, 9],
          val_samples = map (\<lambda>i. load_all small_store ! i) [2, 3],
          test_samples = map (\<lambda>i. load_all small_store ! i) [0, 1]\<rparr>"
proof -
  have ne: "load_all small_store \<noteq> []"
    using arg_cong[OF small_store_glosses, of length] by auto
  have nz: "(7 / 10 + 15 / 100 :: rat) \<noteq> 0" by simp
  show ?thesis
    by (rule create_splits_checks_no_class_size[OF cut_split_partitions ne
          small_store_first_split nz small_store_second_split _ _ _ small_store_stackable])
       simp_all
qed

text \<open>
  C6 as stated fails: class a of the small store has two samples, fewer than three, and
  the split neither raises an error that names the class nor any other error: it
  returns the three splits, and both samples of class a (indices 0 and 1) are in test.
\<close>

theorem two_sample_class_is_split:
  "map gloss (load_all small_store) =
     [''a'', ''a'', ''b'', ''b'', ''b'', ''b'', ''b'', ''b'', ''b'', ''b''] \<and>
   map_sum id split_ids
     (create_splits cut_split (7 / 10) (15 / 100) (15 / 100) 42 small_store) =
   Inr ([4, 5, 6, 7, 8, 9], [2, 3], [0, 1])"
  using small_store_glosses small_store_split by simp

text \<open>
  C10.  For a pickle file whose landmark array is 3-dimensional of shape
  \<open>(frames, 21, 3)\<close>: with at least one frame the file is loaded, and whatever the number
  of frames, the stored features are the 63 values of the first frame and nothing else,
  and the stored landmarks are that frame, of shape \<open>(21, 3)\<close>; every later frame is
  dropped.  With no frame, \<open>landmarks[0]\<close> raises, the exception is caught and the file
  is skipped.
\<close>

theorem load_file_first_frame:
  assumes c: "pk_content f = Some d" and lm: "pk_landmarks d = Some a"
    and sh: "shape a = [frames, 21, 3]" and wf: "length (flat a) = frames * 21 * 3"
  shows "(frames = 0 \<longrightarrow> load_file idx g f = None) \<and>
         (0 < frames \<longrightarrow>
            (\<exists>s. load_file idx g f = Some s \<and> features s = take 63 (flat a) \<and>
                 length (features s) = 63 \<and> shape (landmarks s) = [21, 3] \<and>
                 flat (landmarks s) = take 63 (flat a) \<and> label s = idx \<and> gloss s = g))"
  using assms by (auto simp: load_file_def first_frame_def)

text \<open>
  The theorem on a file with two frames, the first of 63 ones and the second of 63 twos:
  the features are the 63 ones.
\<close>

theorem load_file_first_frame_witness:
  "pk_content two_frame_file = Some \<lparr>pk_landmarks = Some two_frame_array, pk_source = None\<rparr> \<and>
   shape two_frame_array = [2, 21, 3] \<and> length (flat two_frame_array) = 2 * 21 * 3 \<and>
   (\<exists>s. load_file 3 ''d'' two_frame_file = Some s \<and> features s = frame 1 \<and>
        length (features s) = 63 \<and> shape (landmarks s) = [21, 3])"
proof -
  have c: "pk_content two_frame_file =
             Some \<lparr>pk_landmarks = Some two_frame_array, pk_source = None\<rparr>"
    by (simp add: two_frame_file_def)
  have lm: "pk_landmarks \<lparr>pk_landmarks = Some two_frame_array, pk_source = None\<rparr> =
              Some two_frame_array" by simp
  have sh: "shape two_frame_array = [2, 21, 3]" by (simp add: two_frame_array_def)
  have wf: "length (flat two_frame_array) = 2 * 21 * 3"
    by (simp add: two_frame_array_def frame_def)
  have t: "take 63 (flat two_frame_array) = frame 1"
    by (simp add: two_frame_array_def frame_def)
  from load_file_first_frame[OF c lm sh wf, of 3 "''d''"] t
  have "\<exists>s. load_file 3 ''d'' two_frame_file = Some s \<and> features s = frame 1 \<and>
        length (features s) = 63 \<and> shape (landmarks s) = [21, 3]"
    by auto
  with c sh wf show ?thesis by simp
qed

section \<open>Properties of the multi-model run\<close>

text \<open>
  C7, as the code has it.  \<open>run_all\<close> catches nothing: when the training or the
  evaluation of a model raises, \<open>run_all\<close> ends with that error, it returns and writes
  no results, and no later model is trained.  The models started are those up to and
  including the one that failed.
\<close>

theorem run_all_propagates_first_error:
  "(train_then_evaluate tm ev pc ''transformer'' = Inl e \<longrightarrow>
      run_all tm ev pc = \<lparr>started = [''transformer''], outcome = Inl e\<rparr>) \<and>
   (train_then_evaluate tm ev pc ''transformer'' = Inr r1 \<and>
    train_then_evaluate tm ev pc ''gru'' = Inl e \<longrightarrow>
      run_all tm ev pc = \<lparr>started = [''transformer'', ''gru''], outcome = Inl e\<rparr>) \<and>
   (train_then_evaluate tm ev pc ''transformer'' = Inr r1 \<and>
    train_then_evaluate tm ev pc ''gru'' = Inr r2 \<and>
    train_then_evaluate tm ev pc ''tcn'' = Inl e \<longrightarrow>
      run_all tm ev pc = \<lparr>started = [''transformer'', ''gru'', ''tcn''], outcome = Inl e\<rparr>)"
  by (simp add: run_all_def)

text \<open>
  The theorem on a run in which the evaluation of the third model finds no checkpoint:
  the call ends with that error although two models trained and evaluated.
\<close>

theorem run_all_propagates_first_error_witness:
  "train_then_evaluate all_train tcn_has_no_checkpoint example_params ''transformer'' =
     Inr \<lparr>res_best_val_acc = 80, res_test_acc = 70, res_params = 1000\<rparr> \<and>
   train_then_evaluate all_train tcn_has_no_checkpoint example_params ''gru'' =
     Inr \<lparr>res_best_val_acc = 80, res_test_acc = 70, res_params = 1000\<rparr> \<and>
   train_then_evaluate all_train tcn_has_no_checkpoint example_params ''tcn'' =
     Inl FileNotFoundError \<and>
   run_all all_train tcn_has_no_checkpoint example_params =
     \<lparr>started = [''transformer'', ''gru'', ''tcn''], outcome = Inl FileNotFoundError\<rparr>"
proof -
  have a: "train_then_evaluate all_train tcn_has_no_checkpoint example_params ''transformer'' =
     Inr \<lparr>res_best_val_acc = 80, res_test_acc = 70, res_params = 1000\<rparr>"
    "train_then_evaluate all_train tcn_has_no_checkpoint example_params ''gru'' =
     Inr \<lparr>res_best_val_acc = 80, res_test_acc = 70, res_params = 1000\<rparr>"
    "train_then_evaluate all_train tcn_has_no_checkpoint example_params ''tcn'' =
     Inl FileNotFoundError"
    by (simp_all add: train_then_evaluate_def all_train_def tcn_has_no_checkpoint_def
          example_params_def)
  from run_all_propagates_first_error[of all_train tcn_has_no_checkpoint example_params
      FileNotFoundError "\<lparr>res_best_val_acc = 80, res_test_acc = 70, res_params = 1000\<rparr>"
      "\<lparr>res_best_val_acc = 80, res_test_acc = 70, res_params = 1000\<rparr>"] a
  have "run_all all_train tcn_has_no_checkpoint example_params =
     \<lparr>started = [''transformer'', ''gru'', ''tcn''], outcome = Inl FileNotFoundError\<rparr>"
    by blast
  with a show ?thesis by simp
qed

text \<open>
  C7 as stated fails: when the training of the second model raises, the call ends with
  that error; there is no failed entry and no result of the first model, and the third
  model is never started.
\<close>

theorem run_all_aborts_on_failure:
  "run_all gru_fails rising_test_acc example_params =
     \<lparr>started = [''transformer'', ''gru''], outcome = Inl RuntimeError\<rparr>"
  by (simp add: run_all_def train_then_evaluate_def gru_fails_def rising_test_acc_def
       example_params_def)

text \<open>
  C8, as the code has it.  The results of a completed \<open>run_all\<close> are in the fixed order
  in which the models were run, transformer, gru, tcn, whatever their test accuracies
  and parameter counts; each entry is what training and evaluating that model gave.
  Nothing is sorted.
\<close>

theorem run_all_fixed_order:
  assumes "outcome (run_all tm ev pc) = Inr table"
  shows "map fst table = [''transformer'', ''gru'', ''tcn''] \<and>
         map (\<lambda>(name, r). Inr r) table = map (train_then_evaluate tm ev pc) (map fst table)"
  using assms by (auto simp: run_all_def split: sum.splits)

lemma rising_table:
  "outcome (run_all all_train rising_test_acc example_params) =
     Inr [(''transformer'', \<lparr>res_best_val_acc = 80, res_test_acc = 10, res_params = 1000\<rparr>),
          (''gru'', \<lparr>res_best_val_acc = 80, res_test_acc = 50, res_params = 1000\<rparr>),
          (''tcn'', \<lparr>res_best_val_acc = 80, res_test_acc = 90, res_params = 1000\<rparr>)]"
  by (simp add: run_all_def train_then_evaluate_def all_train_def rising_test_acc_def
       example_params_def)

text \<open>
  The theorem on a run with test accuracies 10, 50 and 90: the order of the table is
  transformer, gru, tcn.
\<close>

theorem run_all_fixed_order_witness:
  "outcome (run_all all_train rising_test_acc example_params) =
     Inr [(''transformer'', \<lparr>res_best_val_acc = 80, res_test_acc = 10, res_params = 1000\<rparr>),
          (''gru'', \<lparr>res_best_val_acc = 80, res_test_acc = 50, res_params = 1000\<rparr>),
          (''tcn'', \<lparr>res_best_val_acc = 80, res_test_acc = 90, res_params = 1000\<rparr>)] \<and>
   map fst [(''transformer'', \<lparr>res_best_val_acc = 80, res_test_acc = 10, res_params = 1000\<rparr>),
          (''gru'', \<lparr>res_best_val_acc = 80, res_test_acc = 50, res_params = 1000\<rparr>),
          (''tcn'', \<lparr>res_best_val_acc = 80, res_test_acc = 90, res_params = 1000\<rparr>)] =
     [''transformer'', ''gru'', ''tcn'']"
  using run_all_fixed_order[OF rising_table] rising_table by simp

text \<open>
  C8 as stated fails: with test accuracies 10, 50 and 90 the table lists them in this
  rising order, which is not ranked by test accuracy descending.
\<close>

theorem run_all_table_unranked:
  "outcome (run_all all_train rising_test_acc example_params) =
     Inr [(''transformer'', \<lparr>res_best_val_acc = 80, res_test_acc = 10, res_params = 1000\<rparr>),
          (''gru'', \<lparr>res_best_val_acc = 80, res_test_acc = 50, res_params = 1000\<rparr>),
          (''tcn'', \<lparr>res_best_val_acc = 80, res_test_acc = 90, res_params = 1000\<rparr>)] \<and>
   \<not> ranked
       [(''transformer'', \<lparr>res_best_val_acc = 80, res_test_acc = 10, res_params = 1000\<rparr>),
        (''gru'', \<lparr>res_best_val_acc = 80, res_test_acc = 50, res_params = 1000\<rparr>),
        (''tcn'', \<lparr>res_best_val_acc = 80, res_test_acc = 90, res_params = 1000\<rparr>)]"
  using rising_table by (simp add: ranked_def)

end
